theory Spec2Isabelle
  imports Complex_Main "HOL-Library.AList" "HOL-Library.Log_Nat"
begin

section \<open>Errors and control flow\<close>

text \<open>
  A JavaScript exception is a value of type \<open>error\<close>.  A function that can throw after it
  has already mutated objects returns the state reached together with the exception, so
  the result of such a function is a pair \<open>(outcome, state)\<close> where the outcome
  \<open>None\<close> is normal completion.
\<close>

datatype error =
    TypeError string   \<comment> \<open>property access on \<open>undefined\<close>, call of a missing method\<close>
  | Error string       \<comment> \<open>\<open>throw new Error(...)\<close>\<close>
  | UserError string   \<comment> \<open>an exception raised by an overridden lifecycle hook\<close>

text \<open>How the body of a loop iteration ends: it falls through to the next iteration,
  executes \<open>return\<close>, or throws.\<close>

datatype flow = Next | Return | Throw error

section \<open>Arrays\<close>

text \<open>\<open>Array.prototype.findIndex\<close>: the index of the first element satisfying the
  predicate, \<open>-1\<close> when there is none.\<close>

fun findIndex :: "('a \<Rightarrow> bool) \<Rightarrow> 'a list \<Rightarrow> int" where
  "findIndex P [] = - 1"
| "findIndex P (a # as) =
     (if P a then 0 else (let i = findIndex P as in if i < 0 then - 1 else i + 1))"

text \<open>\<open>Array.prototype.splice(start, deleteCount)\<close> as ECMAScript defines it: a negative
  \<open>start\<close> counts from the end of the array, and both numbers are clamped to the array.
  The result is the array after the removal.\<close>

definition splice :: "int \<Rightarrow> int \<Rightarrow> 'a list \<Rightarrow> 'a list" where
  "splice start deleteCount as =
     (let len = int (length as);
          actualStart = (if start < 0 then max (len + start) 0 else min start len);
          actualDeleteCount = min (max deleteCount 0) (len - actualStart)
      in take (nat actualStart) as @ drop (nat (actualStart + actualDeleteCount)) as)"

text \<open>An object found with \<open>Array.prototype.find\<close> is mutated in place; in the list model
  the first element satisfying the predicate is replaced.\<close>

fun update_first :: "('a \<Rightarrow> bool) \<Rightarrow> 'a \<Rightarrow> 'a list \<Rightarrow> 'a list" where
  "update_first P b [] = []"
| "update_first P b (a # as) = (if P a then b # as else a # update_first P b as)"

section \<open>Actors (src/server/Actor/ClientActor.ts)\<close>

text \<open>
  Positions, sizes and speeds are JavaScript numbers.  Every one of them in this program is
  an integer (random integer start coordinates, the box size 24, the speed 4) and they are
  only added and subtracted, which is exact on doubles of this size, so they are modelled as
  \<open>int\<close>.
\<close>

datatype Side = Side_None | Side_Top | Side_Bottom | Side_Left | Side_Right

record Quat =
  qx :: int
  qy :: int
  qz :: int
  qw :: int

record Vector =
  vx :: int
  vy :: int

record CollisionData =
  isColliding :: bool
  collisionDirection :: Side
  other :: "string option"   \<comment> \<open>the other actor, referred to by its uuid; \<open>None\<close> is \<open>null\<close>\<close>

datatype ActorClass = ClientActor | NPCActor

text \<open>An entity of a scene.  \<open>pos\<close>, \<open>width\<close> and \<open>height\<close> are the attributes of the
  engine's \<open>Actor\<close> base class; \<open>position\<close> is the field of the same name that both
  classes of ClientActor.ts add.  \<open>collisionData\<close> exists on a \<open>ClientActor\<close> only.
  \<open>killed\<close> records a call of \<open>Entity.kill()\<close>.\<close>

record Actor =
  actorClass :: ActorClass
  name :: string
  uuid :: string
  pos :: Vector
  width :: int
  height :: int
  position :: Quat
  directions :: "string list"
  collisionData :: CollisionData
  killed :: bool

definition getIsColliding :: "Actor \<Rightarrow> error + CollisionData" where
  "getIsColliding this =
     (case actorClass this of
        ClientActor \<Rightarrow> Inr (collisionData this)
      | NPCActor \<Rightarrow> Inl (TypeError ''pEnt.getIsColliding is not a function''))"

definition onCollisionStart :: "Actor \<Rightarrow> Actor \<Rightarrow> Side \<Rightarrow> Actor" where
  "onCollisionStart this otherActor side =
     (let this1 = this\<lparr>collisionData :=
            \<lparr>isColliding = True, collisionDirection = side, other = Some (uuid otherActor)\<rparr>\<rparr>
      in case side of
           Side_None \<Rightarrow> this1
         | Side_Top \<Rightarrow>
             (let overlap = vy (pos otherActor) + height otherActor - vy (pos this1)
              in this1\<lparr>pos := \<lparr>vx = qx (position this1), vy = qy (position this1) + overlap\<rparr>,
                       position := (position this1)\<lparr>qy := qy (position this1) + overlap\<rparr>\<rparr>)
         | Side_Bottom \<Rightarrow>
             (let overlap = vy (pos otherActor) - (vy (pos this1) + height this1)
              in this1\<lparr>pos := \<lparr>vx = qx (position this1), vy = qy (position this1) + overlap\<rparr>,
                       position := (position this1)\<lparr>qy := qy (position this1) + overlap\<rparr>\<rparr>)
         | Side_Left \<Rightarrow>
             (let overlap = vx (pos otherActor) + width otherActor - vx (pos this1)
              in this1\<lparr>pos := \<lparr>vx = qx (position this1) + overlap, vy = qy (position this1)\<rparr>,
                       position := (position this1)\<lparr>qx := qx (position this1) + overlap\<rparr>\<rparr>)
         | Side_Right \<Rightarrow>
             (let overlap = vx (pos otherActor) - (vx (pos this1) + width this1)
              in this1\<lparr>pos := \<lparr>vx = qx (position this1) + overlap, vy = qy (position this1)\<rparr>,
                       position := (position this1)\<lparr>qx := qx (position this1) + overlap\<rparr>\<rparr>))"

definition onCollisionEnd :: "Actor \<Rightarrow> Actor" where
  "onCollisionEnd this =
     this\<lparr>collisionData := \<lparr>isColliding = False, collisionDirection = Side_None, other = None\<rparr>\<rparr>"

text \<open>\<open>ClientActor.onPreUpdate\<close>: the engine-side \<open>pos\<close> is overwritten from \<open>position\<close>.
  An \<open>NPCActor\<close> does not override the hook.\<close>

definition onPreUpdate :: "Actor \<Rightarrow> Actor" where
  "onPreUpdate this =
     (case actorClass this of
        ClientActor \<Rightarrow> this\<lparr>pos := \<lparr>vx = qx (position this), vy = qy (position this)\<rparr>\<rparr>
      | NPCActor \<Rightarrow> this)"

section \<open>Plain objects used as dictionaries\<close>

text \<open>
  \<open>rooms\<close> (server.ts) and \<open>Director.scenes\<close> are object literals \<open>{}\<close> read with
  \<open>obj[key]\<close>.  Such a read finds the object's own properties and, for a key that is not
  an own property, the members inherited from \<open>Object.prototype\<close>: the key
  \<open>constructor\<close> yields the function \<open>Object\<close>, the other inherited keys yield built-in
  methods or the prototype object itself.  Own properties are an association list in
  insertion order.
\<close>

datatype 'a property =
    Own 'a                 \<comment> \<open>an own property\<close>
  | Object_constructor     \<comment> \<open>\<open>Object.prototype.constructor\<close>, the function \<open>Object\<close>\<close>
  | Object_member          \<comment> \<open>another member of \<open>Object.prototype\<close>\<close>
  | Undefined

definition Object_prototype_keys :: "string list" where
  "Object_prototype_keys =
     [''__defineGetter__'', ''__defineSetter__'', ''hasOwnProperty'', ''__lookupGetter__'',
      ''__lookupSetter__'', ''isPrototypeOf'', ''propertyIsEnumerable'', ''toString'',
      ''valueOf'', ''__proto__'', ''toLocaleString'']"

definition get_prop :: "(string \<times> 'a) list \<Rightarrow> string \<Rightarrow> 'a property" where
  "get_prop obj key =
     (case map_of obj key of
        Some v \<Rightarrow> Own v
      | None \<Rightarrow>
          if key = ''constructor'' then Object_constructor
          else if key \<in> set Object_prototype_keys then Object_member
          else Undefined)"

section \<open>The room server (src/server/server.ts)\<close>

definition playerSpeed :: int where
  "playerSpeed = 4"

record ServerTransmitEntities =
  ste_id :: string
  networkId :: string
  ste_position :: Quat

text \<open>Of a room's engine the server code reads and writes one thing only, the current
  scene (\<open>gameEngine.currentScene\<close>): its entity list, and through \<open>Scene.update\<close> its
  initialization flag and the \<open>room\<close> field of \<open>MainScene\<close>.\<close>

record MainScene =
  room :: "string option"            \<comment> \<open>\<open>None\<close> is \<open>undefined\<close>\<close>
  sceneInitialized :: bool            \<comment> \<open>\<open>Scene._isInitialized\<close>\<close>
  entities :: "Actor list"            \<comment> \<open>\<open>world.entityManager.entities\<close>\<close>

record WorldState =
  players :: "ServerTransmitEntities list"
  gameEngine :: MainScene             \<comment> \<open>\<open>gameEngine.currentScene\<close>\<close>
  roomId :: string

record SnapshotPlayer =
  userId :: string
  snap_id :: string
  snap_position :: Quat

record Update =
  snapshot :: "SnapshotPlayer list"
  update_roomId :: "string option"

text \<open>The module state: the \<open>rooms\<close> object and, as a log, the messages handed to
  \<open>server.broadcastMessage\<close>.\<close>

record Server =
  rooms :: "(string \<times> WorldState) list"
  broadcasts :: "(string option \<times> Update) list"

text \<open>A room id that is \<open>undefined\<close> is the property key \<open>"undefined"\<close>.\<close>

definition room_key :: "string option \<Rightarrow> string" where
  "room_key r = (case r of None \<Rightarrow> ''undefined'' | Some k \<Rightarrow> k)"

definition set_entities :: "string \<Rightarrow> Actor list \<Rightarrow> Server \<Rightarrow> Server" where
  "set_entities key ents srv =
     srv\<lparr>rooms := map (\<lambda>(k, ws).
        if k = key then (k, ws\<lparr>gameEngine := (gameEngine ws)\<lparr>entities := ents\<rparr>\<rparr>) else (k, ws))
        (rooms srv)\<rparr>"

subsection \<open>updateEntities\<close>

definition moveUp :: "Actor \<Rightarrow> flow \<times> Actor" where
  "moveUp pEnt =
     (if ''up'' \<in> set (directions pEnt) then
        (case getIsColliding pEnt of
           Inl e \<Rightarrow> (Throw e, pEnt)
         | Inr c \<Rightarrow>
             if isColliding c \<and> collisionDirection c = Side_Top then (Return, pEnt)
             else (Next, pEnt\<lparr>position := (position pEnt)\<lparr>qy := qy (position pEnt) - playerSpeed\<rparr>\<rparr>))
      else (Next, pEnt))"

definition moveDown :: "Actor \<Rightarrow> flow \<times> Actor" where
  "moveDown pEnt =
     (if ''down'' \<in> set (directions pEnt) then
        (case getIsColliding pEnt of
           Inl e \<Rightarrow> (Throw e, pEnt)
         | Inr c \<Rightarrow>
             if isColliding c \<and> collisionDirection c = Side_Bottom then (Return, pEnt)
             else (Next, pEnt\<lparr>position := (position pEnt)\<lparr>qy := qy (position pEnt) + playerSpeed\<rparr>\<rparr>))
      else (Next, pEnt))"

definition moveLeft :: "Actor \<Rightarrow> flow \<times> Actor" where
  "moveLeft pEnt =
     (if ''left'' \<in> set (directions pEnt) then
        (case getIsColliding pEnt of
           Inl e \<Rightarrow> (Throw e, pEnt)
         | Inr c \<Rightarrow>
             if isColliding c \<and> collisionDirection c = Side_Left then (Return, pEnt)
             else (Next, pEnt\<lparr>position := (position pEnt)\<lparr>qx := qx (position pEnt) - playerSpeed\<rparr>\<rparr>))
      else (Next, pEnt))"

definition moveRight :: "Actor \<Rightarrow> flow \<times> Actor" where
  "moveRight pEnt =
     (if ''right'' \<in> set (directions pEnt) then
        (case getIsColliding pEnt of
           Inl e \<Rightarrow> (Throw e, pEnt)
         | Inr c \<Rightarrow>
             if isColliding c \<and> collisionDirection c = Side_Right then (Return, pEnt)
             else (Next, pEnt\<lparr>position := (position pEnt)\<lparr>qx := qx (position pEnt) + playerSpeed\<rparr>\<rparr>))
      else (Next, pEnt))"

text \<open>Statements in sequence: the second runs only when the first fell through.\<close>

definition andThen :: "flow \<times> 'a \<Rightarrow> ('a \<Rightarrow> flow \<times> 'a) \<Rightarrow> flow \<times> 'a" where
  "andThen r f = (case r of (Next, a) \<Rightarrow> f a | (Return, a) \<Rightarrow> (Return, a) | (Throw e, a) \<Rightarrow> (Throw e, a))"

text \<open>The body of the loop for one entity, lines 237 to 254.\<close>

definition movePlayer :: "Actor \<Rightarrow> flow \<times> Actor" where
  "movePlayer pEnt =
     (if length (directions pEnt) > 0 then
        andThen (andThen (andThen (moveUp pEnt) moveDown) moveLeft) moveRight
      else (Next, pEnt))"

text \<open>The loop over \<open>players\<close>.  An entry whose entity is not found makes \<open>pEnt\<close> undefined,
  and reading \<open>pEnt.directions\<close> throws.  A \<open>return\<close> in the body leaves the function.\<close>

fun updateEntities_loop :: "ServerTransmitEntities list \<Rightarrow> Actor list \<Rightarrow> flow \<times> Actor list" where
  "updateEntities_loop [] ents = (Next, ents)"
| "updateEntities_loop (player # rest) ents =
     (case find (\<lambda>entity. uuid entity = ste_id player) ents of
        None \<Rightarrow> (Throw (TypeError ''pEnt is undefined''), ents)
      | Some pEnt \<Rightarrow>
          (case movePlayer pEnt of
             (Next, pEnt') \<Rightarrow>
               updateEntities_loop rest (update_first (\<lambda>entity. uuid entity = ste_id player) pEnt' ents)
           | (Return, pEnt') \<Rightarrow>
               (Return, update_first (\<lambda>entity. uuid entity = ste_id player) pEnt' ents)
           | (Throw e, pEnt') \<Rightarrow>
               (Throw e, update_first (\<lambda>entity. uuid entity = ste_id player) pEnt' ents)))"

definition updateEntities :: "string option \<Rightarrow> Server \<Rightarrow> error option \<times> Server" where
  "updateEntities rm srv =
     (case get_prop (rooms srv) (room_key rm) of
        Own roomState \<Rightarrow>
          (case updateEntities_loop (players roomState) (entities (gameEngine roomState)) of
             (Throw e, ents) \<Rightarrow> (Some e, set_entities (room_key rm) ents srv)
           | (_, ents) \<Rightarrow> (None, set_entities (room_key rm) ents srv))
      | _ \<Rightarrow> (Some (TypeError ''roomState.players is not iterable''), srv))"

subsection \<open>MainScene.onPreUpdate and Scene.update\<close>

text \<open>\<open>MainScene.onPreUpdate\<close>: move the players, then build the snapshot from the \<open>pos\<close>
  of every entity of the room's current scene and broadcast it.\<close>

definition snapshot_of :: "Actor \<Rightarrow> SnapshotPlayer" where
  "snapshot_of player =
     \<lparr>userId = name player, snap_id = uuid player,
      snap_position = \<lparr>qx = vx (pos player), qy = vy (pos player), qz = 0, qw = 0\<rparr>\<rparr>"

definition MainScene_onPreUpdate :: "MainScene \<Rightarrow> Server \<Rightarrow> error option \<times> Server" where
  "MainScene_onPreUpdate this srv =
     (case updateEntities (room this) srv of
        (Some e, srv1) \<Rightarrow> (Some e, srv1)
      | (None, srv1) \<Rightarrow>
          (case get_prop (rooms srv1) (room_key (room this)) of
             Own roomState \<Rightarrow>
               (let roomEntities = entities (gameEngine roomState);
                    upd = \<lparr>snapshot = map snapshot_of roomEntities, update_roomId = room this\<rparr>
                in (None, srv1\<lparr>broadcasts := broadcasts srv1 @ [(room this, upd)]\<rparr>))
           | _ \<Rightarrow> (Some (TypeError ''roomState.gameEngine is undefined''), srv1)))"

text \<open>
  \<open>Scene.update\<close> for the \<open>MainScene\<close> that is the current scene of the engine of room
  \<open>key\<close>.  The steps of the method, in its order: the initialization guard; \<open>_preupdate\<close>,
  which calls the overridden \<open>onPreUpdate\<close>; the timers (a \<open>MainScene\<close> has none);
  \<open>world.update\<close>; \<open>_postupdate\<close> (not overridden).  \<open>World\<close> and its systems are not among
  the sources: the pass over the entities is the parameter \<open>world_update\<close>.  Under a key
  that has no room there is no such scene, and nothing is done.
\<close>

definition Scene_update :: "(Actor list \<Rightarrow> Actor list) \<Rightarrow> string \<Rightarrow> Server \<Rightarrow> error option \<times> Server" where
  "Scene_update world_update key srv =
     (case map_of (rooms srv) key of
        None \<Rightarrow> (None, srv)
      | Some ws \<Rightarrow>
          if \<not> sceneInitialized (gameEngine ws) then (None, srv)
          else
            (case MainScene_onPreUpdate (gameEngine ws) srv of
               (Some e, srv1) \<Rightarrow> (Some e, srv1)
             | (None, srv1) \<Rightarrow>
                 (case map_of (rooms srv1) key of
                    None \<Rightarrow> (None, srv1)
                  | Some ws1 \<Rightarrow>
                      (None, set_entities key (world_update (entities (gameEngine ws1))) srv1))))"

text \<open>
  The world pass for a given list of contacts.  Each entity is updated first (its
  \<open>onPreUpdate\<close> hook), then every contact \<open>(i, j, side)\<close> reported by the collision
  system calls \<open>onCollisionStart\<close> of the \<open>ClientActor\<close> at index \<open>i\<close> with the actor at
  index \<open>j\<close>.  Which contacts are reported is decided by the collision system.
\<close>

definition apply_contact :: "nat \<times> nat \<times> Side \<Rightarrow> Actor list \<Rightarrow> Actor list" where
  "apply_contact c ents =
     (case c of (i, j, side) \<Rightarrow>
        if i < length ents \<and> j < length ents \<and> actorClass (ents ! i) = ClientActor
        then ents[i := onCollisionStart (ents ! i) (ents ! j) side]
        else ents)"

definition world_pass :: "(nat \<times> nat \<times> Side) list \<Rightarrow> Actor list \<Rightarrow> Actor list" where
  "world_pass contacts ents = fold apply_contact contacts (map onPreUpdate ents)"

subsection \<open>unsubscribeUser\<close>

definition kill :: "Actor \<Rightarrow> Actor" where
  "kill this = this\<lparr>killed := True\<rparr>"

definition unsubscribeUser :: "string \<Rightarrow> string \<Rightarrow> Server \<Rightarrow> error option \<times> Server" where
  "unsubscribeUser rid uid srv =
     (case get_prop (rooms srv) rid of
        Undefined \<Rightarrow> (None, srv)
      | Own rm \<Rightarrow>
          (let indexPlayertoDelete = findIndex (\<lambda>player. networkId player = uid) (players rm);
               ents = entities (gameEngine rm);
               ents' = (case find (\<lambda>entity. name entity = uid) ents of
                          None \<Rightarrow> ents
                        | Some playerEntity \<Rightarrow>
                            update_first (\<lambda>entity. name entity = uid) (kill playerEntity) ents);
               rm' = rm\<lparr>players := splice indexPlayertoDelete 1 (players rm),
                        gameEngine := (gameEngine rm)\<lparr>entities := ents'\<rparr>\<rparr>
           in (None, srv\<lparr>rooms := AList.update rid rm' (rooms srv)\<rparr>))
      | _ \<Rightarrow> (Some (TypeError ''room.players is undefined''), srv))"

subsection \<open>Example rooms\<close>

definition clientActor :: "string \<Rightarrow> string \<Rightarrow> int \<Rightarrow> int \<Rightarrow> Actor" where
  "clientActor nm uid startingX startingY =
     \<lparr>actorClass = ClientActor, name = nm, uuid = uid,
      pos = \<lparr>vx = startingX, vy = startingY\<rparr>, width = 24, height = 24,
      position = \<lparr>qx = startingX, qy = startingY, qz = 0, qw = 0\<rparr>,
      directions = [],
      collisionData = \<lparr>isColliding = False, collisionDirection = Side_None, other = None\<rparr>,
      killed = False\<rparr>"

definition npcActor :: "string \<Rightarrow> int \<Rightarrow> int \<Rightarrow> Actor" where
  "npcActor uid startingX startingY =
     \<lparr>actorClass = NPCActor, name = ''NPC'', uuid = uid,
      pos = \<lparr>vx = startingX, vy = startingY\<rparr>, width = 24, height = 24,
      position = \<lparr>qx = startingX, qy = startingY, qz = 0, qw = 0\<rparr>,
      directions = [],
      collisionData = \<lparr>isColliding = False, collisionDirection = Side_None, other = None\<rparr>,
      killed = False\<rparr>"

definition transmit :: "string \<Rightarrow> Actor \<Rightarrow> ServerTransmitEntities" where
  "transmit nid a =
     \<lparr>ste_id = uuid a, networkId = nid,
      ste_position = \<lparr>qx = vx (pos a), qy = vy (pos a), qz = 0, qw = 0\<rparr>\<rparr>"

text \<open>A room whose scene has been initialized and activated with the room's id, and the
  server that has just this room.\<close>

definition room_state :: "string \<Rightarrow> ServerTransmitEntities list \<Rightarrow> Actor list \<Rightarrow> WorldState" where
  "room_state rid ps ents =
     \<lparr>players = ps,
      gameEngine = \<lparr>room = Some rid, sceneInitialized = True, entities = ents\<rparr>,
      roomId = rid\<rparr>"

definition room_of :: "string \<Rightarrow> ServerTransmitEntities list \<Rightarrow> Actor list \<Rightarrow> Server" where
  "room_of rid ps ents = \<lparr>rooms = [(rid, room_state rid ps ents)], broadcasts = []\<rparr>"

text \<open>Reading a room's entities, its players, and the snapshot that was broadcast last.\<close>

definition room_entities :: "string \<Rightarrow> Server \<Rightarrow> Actor list" where
  "room_entities key srv =
     (case map_of (rooms srv) key of None \<Rightarrow> [] | Some ws \<Rightarrow> entities (gameEngine ws))"

definition room_players :: "string \<Rightarrow> Server \<Rightarrow> ServerTransmitEntities list" where
  "room_players key srv =
     (case map_of (rooms srv) key of None \<Rightarrow> [] | Some ws \<Rightarrow> players ws)"

definition last_snapshot :: "Server \<Rightarrow> SnapshotPlayer list" where
  "last_snapshot srv = (case broadcasts srv of [] \<Rightarrow> [] | _ \<Rightarrow> snapshot (snd (last (broadcasts srv))))"

text \<open>A player at \<open>(100, 100)\<close> holding "down", above a fixed actor at \<open>(100, 124)\<close>.\<close>

definition c5_actor :: Actor where
  "c5_actor = (clientActor ''alice'' ''u1'' 100 100)\<lparr>directions := [''down'']\<rparr>"

definition c5_fixed :: Actor where
  "c5_fixed = npcActor ''n1'' 100 124"

text \<open>A room with two players: \<open>alice\<close> holds "up" and "left" and is in contact with an
  actor on her top side, \<open>bob\<close>, processed after her, holds "right".\<close>

definition c1_alice :: Actor where
  "c1_alice = (clientActor ''alice'' ''u1'' 100 100)
     \<lparr>directions := [''up'', ''left''],
      collisionData := \<lparr>isColliding = True, collisionDirection = Side_Top, other = Some ''n1''\<rparr>\<rparr>"

definition c1_bob :: Actor where
  "c1_bob = (clientActor ''bob'' ''u2'' 300 300)\<lparr>directions := [''right'']\<rparr>"

definition c1_npc :: Actor where
  "c1_npc = npcActor ''n1'' 100 76"

definition c1_room :: Server where
  "c1_room =
     room_of ''r'' [transmit ''alice'' c1_alice, transmit ''bob'' c1_bob, transmit [] c1_npc]
       [c1_alice, c1_bob, c1_npc]"

text \<open>A room whose player holds "down" and "right" above a fixed actor.\<close>

definition c2_alice :: Actor where
  "c2_alice = (clientActor ''alice'' ''u1'' 100 100)\<lparr>directions := [''down'', ''right'']\<rparr>"

definition c2_npc :: Actor where
  "c2_npc = npcActor ''n1'' 100 124"

definition c2_room :: Server where
  "c2_room = room_of ''r'' [transmit [] c2_npc, transmit ''alice'' c2_alice] [c2_alice, c2_npc]"

text \<open>A room as \<open>subscribeUser\<close> leaves it after the first user: three NPC entries with
  the empty network id, then the user's.  Unsubscribing the same user four times empties
  the list of players.\<close>

definition c9_room :: Server where
  "c9_room =
     room_of ''r''
       [transmit [] (npcActor ''n1'' 10 10), transmit [] (npcActor ''n2'' 50 50),
        transmit [] (npcActor ''n3'' 90 90), transmit ''alice'' (clientActor ''alice'' ''u1'' 100 100)]
       [npcActor ''n1'' 10 10, npcActor ''n2'' 50 50, npcActor ''n3'' 90 90,
        clientActor ''alice'' ''u1'' 100 100]"

definition c9_emptied :: Server where
  "c9_emptied =
     snd (unsubscribeUser ''r'' ''alice'' (snd (unsubscribeUser ''r'' ''alice''
       (snd (unsubscribeUser ''r'' ''alice'' (snd (unsubscribeUser ''r'' ''alice'' c9_room)))))))"

section \<open>Scenes and the Director (src/server/HeadlessEx/Scene.ts, Director/Director.ts)\<close>

text \<open>
  Objects are referred to by identity.  A scene is registered as an instance, as a
  constructor, or as either wrapped in an options object \<open>{scene: ...}\<close>.  The constructor
  \<open>Object\<close> is listed because \<open>isSceneConstructor\<close> accepts it: its \<open>prototype\<close> and the
  \<open>name\<close> of its \<open>prototype.constructor\<close> are both truthy.  \<open>SceneClass 0\<close> is the class
  \<open>Scene\<close> itself, the other numbers are its subclasses.
\<close>

type_synonym scene_id = nat

datatype ctor = Object | SceneClass nat

datatype scene_ref = Inst scene_id | Ctor ctor

datatype scene_entry = Plain scene_ref | WithOptions scene_ref

text \<open>The fields of a scene the lifecycle depends on.  An object made by \<open>new Object()\<close> has
  \<open>sceneClass = Object\<close>: it has none of the methods or fields of a \<open>Scene\<close>.\<close>

record Scene =
  sceneClass :: ctor
  isInitialized :: bool        \<comment> \<open>\<open>_isInitialized\<close>\<close>
  engine :: "nat option"       \<comment> \<open>\<open>engine\<close>, undefined until \<open>_initialize\<close>\<close>

type_synonym activation_data = string

record SceneActivationContext =
  previousScene :: scene_id
  nextScene :: scene_id
  data :: "activation_data option"

record GoToOptions =
  sceneActivationData :: "activation_data option"

datatype hook = OnInitialize | OnActivate | OnDeactivate

datatype level = Debug | Warn | Err

text \<open>What the lifecycle does that is visible from outside: calls of the overridable hooks,
  events emitted on a scene or on the director, log lines, and the calls into the scene's
  system manager and children, whose code is not among the sources.\<close>

datatype event =
    HookCall hook scene_id "SceneActivationContext option"
  | SceneEmit string scene_id
  | DirectorEmit string string string
  | Log level string
  | SystemsInitialize scene_id
  | InitializeChildren scene_id

text \<open>
  The Director together with the scene objects it can reach (\<open>heap\<close>, \<open>nextId\<close>) and the
  trace of events.  Each trace entry carries the values \<open>currentScene\<close> and
  \<open>currentSceneName\<close> had when the event happened: this is what a hook or an event
  handler running at that moment reads from the Director.
\<close>

record Director =
  director_initialized :: bool                        \<comment> \<open>\<open>_initialized\<close>\<close>
  deferredGoto :: "string option"                     \<comment> \<open>\<open>_deferredGoto\<close>\<close>
  currentSceneName :: string
  currentScene :: scene_id
  scenes :: "(string \<times> scene_entry) list"
  sceneToInstance :: "(string \<times> scene_id) list"      \<comment> \<open>\<open>_sceneToInstance\<close>\<close>
  rootScene :: scene_id
  engine_ref :: nat                                   \<comment> \<open>\<open>_engine\<close>\<close>
  heap :: "scene_id \<Rightarrow> Scene"
  nextId :: scene_id
  trace :: "(event \<times> scene_id \<times> string) list"

text \<open>
  The overridable hooks \<open>onInitialize\<close>, \<open>onActivate\<close> and \<open>onDeactivate\<close> are user code.  A
  hook is given by its outcome, normal return or an exception, which may depend on the
  scene it is called on and on the whole state at the time of the call.  The call is
  recorded in the trace.  Every asynchronous method is followed to its completion: a call
  is modelled as awaited by its caller.
\<close>

type_synonym hooks = "hook \<Rightarrow> scene_id \<Rightarrow> Director \<Rightarrow> error option"

definition emit :: "event \<Rightarrow> Director \<Rightarrow> Director" where
  "emit ev d = d\<lparr>trace := trace d @ [(ev, currentScene d, currentSceneName d)]\<rparr>"

definition call_hook ::
  "hooks \<Rightarrow> hook \<Rightarrow> scene_id \<Rightarrow> SceneActivationContext option \<Rightarrow> Director \<Rightarrow> error option \<times> Director" where
  "call_hook H h this c d = (H h this d, emit (HookCall h this c) d)"

definition update_scene :: "scene_id \<Rightarrow> (Scene \<Rightarrow> Scene) \<Rightarrow> Director \<Rightarrow> Director" where
  "update_scene this f d = d\<lparr>heap := (heap d)(this := f (heap d this))\<rparr>"

text \<open>The getter \<open>isInitialized\<close>; on an object that is not a \<open>Scene\<close> the property is
  undefined, which is falsy.\<close>

definition Scene_isInitialized :: "Director \<Rightarrow> scene_id \<Rightarrow> bool" where
  "Scene_isInitialized d this = (sceneClass (heap d this) \<noteq> Object \<and> isInitialized (heap d this))"

subsection \<open>Scene lifecycle\<close>

definition Scene_initialize :: "hooks \<Rightarrow> scene_id \<Rightarrow> nat \<Rightarrow> Director \<Rightarrow> error option \<times> Director" where
  "Scene_initialize H this eng d =
     (if sceneClass (heap d this) = Object
      then (Some (TypeError ''this.currentScene._initialize is not a function''), d)
      else if \<not> Scene_isInitialized d this then
        (let d1 = update_scene this (\<lambda>s. s\<lparr>engine := Some eng\<rparr>) d;
             d2 = emit (SystemsInitialize this) d1
         in case call_hook H OnInitialize this None d2 of
              (Some e, d3) \<Rightarrow>
                (Some e, emit (Log Err ''Error during scene initialization'') d3)
            | (None, d3) \<Rightarrow>
                (let d4 = emit (InitializeChildren this) d3;
                     d5 = emit (Log Debug ''Scene.onInitialize'') d4;
                     d6 = emit (SceneEmit ''initialize'' this) d5
                 in (None, update_scene this (\<lambda>s. s\<lparr>isInitialized := True\<rparr>) d6)))
      else (None, d))"

definition Scene_activate ::
  "hooks \<Rightarrow> scene_id \<Rightarrow> SceneActivationContext \<Rightarrow> Director \<Rightarrow> error option \<times> Director" where
  "Scene_activate H this context d =
     (case call_hook H OnActivate this (Some context) (emit (Log Debug ''Scene.onActivate'') d) of
        (Some e, d1) \<Rightarrow> (Some e, emit (Log Err ''Error during scene activation'') d1)
      | (None, d1) \<Rightarrow> (None, d1))"

definition Scene_deactivate ::
  "hooks \<Rightarrow> scene_id \<Rightarrow> SceneActivationContext \<Rightarrow> Director \<Rightarrow> error option \<times> Director" where
  "Scene_deactivate H this context d =
     call_hook H OnDeactivate this (Some context) (emit (Log Debug ''Scene.onDeactivate'') d)"

subsection \<open>Registry\<close>

definition new_Scene :: "ctor \<Rightarrow> Scene" where
  "new_Scene c = \<lparr>sceneClass = c, isInitialized = False, engine = None\<rparr>"

text \<open>\<open>new c()\<close>: a fresh object.\<close>

definition alloc :: "ctor \<Rightarrow> Director \<Rightarrow> scene_id \<times> Director" where
  "alloc c d = (nextId d, d\<lparr>heap := (heap d)(nextId d := new_Scene c), nextId := Suc (nextId d)\<rparr>)"

fun entry_ref :: "scene_entry \<Rightarrow> scene_ref" where
  "entry_ref (Plain r) = r"
| "entry_ref (WithOptions r) = r"

definition getSceneDefinition :: "Director \<Rightarrow> string \<Rightarrow> scene_ref option" where
  "getSceneDefinition d nm =
     (case get_prop (scenes d) nm of
        Own maybeScene \<Rightarrow> Some (entry_ref maybeScene)
      | Object_constructor \<Rightarrow> Some (Ctor Object)
      | Object_member \<Rightarrow> None
      | Undefined \<Rightarrow> None)"

definition getSceneInstance :: "string \<Rightarrow> Director \<Rightarrow> scene_id option \<times> Director" where
  "getSceneInstance nm d =
     (case getSceneDefinition d nm of
        None \<Rightarrow> (None, d)
      | Some sceneDefinition \<Rightarrow>
          (case map_of (sceneToInstance d) nm of
             Some i \<Rightarrow> (Some i, d)
           | None \<Rightarrow>
               (case sceneDefinition of
                  Inst i \<Rightarrow> (Some i, d\<lparr>sceneToInstance := AList.update nm i (sceneToInstance d)\<rparr>)
                | Ctor c \<Rightarrow>
                    (case alloc c d of
                       (newScene, d1) \<Rightarrow>
                         (Some newScene,
                          d1\<lparr>sceneToInstance := AList.update nm newScene (sceneToInstance d1)\<rparr>)))))"

text \<open>\<open>add\<close>.  (Assigning the key \<open>__proto__\<close> replaces the prototype of \<open>scenes\<close> instead of
  adding a property; the own properties, which is what the list holds, stay as they are.
  The new prototype is not followed: \<open>get_prop\<close> reads inherited properties from
  \<open>Object.prototype\<close>, as it is for every director to which nothing was added under that
  key.)\<close>

definition add :: "string \<Rightarrow> scene_entry \<Rightarrow> Director \<Rightarrow> Director" where
  "add nm sceneOrRoute d =
     (let d1 = (if get_prop (scenes d) nm \<noteq> Undefined
                then emit (Log Warn ''Scene already exists overwriting'') d else d)
      in if nm = ''__proto__'' then d1
         else d1\<lparr>scenes := AList.update nm sceneOrRoute (scenes d1)\<rparr>)"

subsection \<open>Navigation\<close>

definition swapScene ::
  "hooks \<Rightarrow> string \<Rightarrow> activation_data option \<Rightarrow> Director \<Rightarrow> error option \<times> Director" where
  "swapScene H destinationScene dat d =
     (if \<not> director_initialized d then (None, d\<lparr>deferredGoto := Some destinationScene\<rparr>)
      else
        (case getSceneInstance destinationScene d of
           (None, d1) \<Rightarrow> (None, emit (Log Err ''Scene does not exist!'') d1)
         | (Some maybeDest, d1) \<Rightarrow>
             (let previous = currentScene d1;
                  next = maybeDest;
                  d2 = emit (Log Debug ''Going to scene:'') d1
              in case (if Scene_isInitialized d2 (currentScene d2) then
                         (case Scene_deactivate H (currentScene d2)
                                 \<lparr>previousScene = previous, nextScene = next, data = None\<rparr> d2 of
                            (Some e, d3) \<Rightarrow> (Some e, d3)
                          | (None, d3) \<Rightarrow> (None, emit (SceneEmit ''deactivate'' (currentScene d3)) d3))
                       else (None, d2)) of
                   (Some e, d3) \<Rightarrow> (Some e, d3)
                 | (None, d3) \<Rightarrow>
                     (let d4 = d3\<lparr>currentScene := next, currentSceneName := destinationScene\<rparr>
                      in case Scene_initialize H (currentScene d4) (engine_ref d4) d4 of
                           (Some e, d5) \<Rightarrow> (Some e, d5)
                         | (None, d5) \<Rightarrow>
                             (case Scene_activate H (currentScene d5)
                                     \<lparr>previousScene = previous, nextScene = next, data = dat\<rparr> d5 of
                                (Some e, d6) \<Rightarrow> (Some e, d6)
                              | (None, d6) \<Rightarrow>
                                  (None, emit (SceneEmit ''activate'' (currentScene d6)) d6))))))"

definition emitEvent :: "string \<Rightarrow> string \<Rightarrow> string \<Rightarrow> Director \<Rightarrow> Director" where
  "emitEvent eventName sourceScene destinationScene d =
     emit (DirectorEmit eventName sourceScene destinationScene) d"

definition goToScene ::
  "hooks \<Rightarrow> string \<Rightarrow> GoToOptions option \<Rightarrow> Director \<Rightarrow> error option \<times> Director" where
  "goToScene H destinationScene options d =
     (case getSceneInstance destinationScene d of
        (None, d1) \<Rightarrow> (None, emit (Log Warn ''Scene does not exist! Check the name'') d1)
      | (Some maybeDest, d1) \<Rightarrow>
          (let sourceScene = currentSceneName d1;
               activationData = (case options of None \<Rightarrow> None | Some opts \<Rightarrow> sceneActivationData opts);
               d2 = emitEvent ''navigationstart'' sourceScene destinationScene d1
           in case swapScene H destinationScene activationData d2 of
                (Some e, d3) \<Rightarrow> (Some e, d3)
              | (None, d3) \<Rightarrow>
                  (None, emitEvent ''navigationend'' sourceScene destinationScene
                           (emitEvent ''navigation'' sourceScene destinationScene d3))))"

text \<open>\<open>Engine.goToScene\<close> runs \<open>Director.goToScene\<close> inside the engine's context scope.\<close>

definition Engine_goToScene ::
  "hooks \<Rightarrow> string \<Rightarrow> GoToOptions option \<Rightarrow> Director \<Rightarrow> error option \<times> Director" where
  "Engine_goToScene H destinationScene options d = goToScene H destinationScene options d"

text \<open>\<open>Director.onInitialize\<close>.  The test \<open>if (this._deferredGoto)\<close> is false for the empty
  string as well as for \<open>undefined\<close>.\<close>

definition Director_onInitialize :: "hooks \<Rightarrow> Director \<Rightarrow> error option \<times> Director" where
  "Director_onInitialize H d =
     (if \<not> director_initialized d then
        (let d1 = d\<lparr>director_initialized := True\<rparr>
         in case deferredGoto d1 of
              None \<Rightarrow> swapScene H ''root'' None d1
            | Some deferredScene \<Rightarrow>
                if deferredScene \<noteq> [] then swapScene H deferredScene None (d1\<lparr>deferredGoto := None\<rparr>)
                else swapScene H ''root'' None d1)
      else (None, d))"

subsection \<open>Construction and removal\<close>

text \<open>The constructor, for an engine \<open>eng\<close> and the scene map \<open>scenes0\<close> of the engine
  options.  \<open>pre\<close> are the scene objects that exist already (those the map names as
  instances); the root scene is created after them.\<close>

fun constructor_loop :: "(string \<times> scene_entry) list \<Rightarrow> Director \<Rightarrow> Director" where
  "constructor_loop [] d = d"
| "constructor_loop ((sceneKey, sceneOrOptions) # rest) d =
     (let d1 = add sceneKey sceneOrOptions d
      in if sceneKey = ''root'' then
           (case getSceneInstance ''root'' d1 of
              (Some r, d2) \<Rightarrow> constructor_loop rest (d2\<lparr>rootScene := r, currentScene := r\<rparr>)
            | (None, d2) \<Rightarrow> constructor_loop rest d2)
         else constructor_loop rest d1)"

definition Director_new :: "nat \<Rightarrow> Scene list \<Rightarrow> (string \<times> scene_entry) list \<Rightarrow> Director" where
  "Director_new eng pre scenes0 =
     (let root = length pre;
          d0 = \<lparr>director_initialized = False, deferredGoto = None, currentSceneName = ''root'',
                currentScene = root, scenes = [], sceneToInstance = [], rootScene = root,
                engine_ref = eng,
                heap = (\<lambda>i. if i < length pre then pre ! i else new_Scene (SceneClass 0)),
                nextId = Suc root, trace = []\<rparr>
      in constructor_loop scenes0 (add ''root'' (Plain (Inst root)) d0))"

datatype remove_arg = ByName string | ByRef scene_ref

text \<open>The loop \<open>for (const key in this.scenes)\<close> of \<open>remove\<close>, over the keys the object had
  when the loop started; a key deleted in the meantime is skipped.  The loop takes the keys
  as a list; \<open>remove\<close> passes them in the order of insertion (JavaScript visits keys that
  are array indices first), and what is proved of the loop below holds for every order.\<close>

fun remove_loop :: "scene_ref \<Rightarrow> string list \<Rightarrow> Director \<Rightarrow> error option \<times> Director" where
  "remove_loop sceneOrCtor [] d = (None, d)"
| "remove_loop sceneOrCtor (key # keys) d =
     (case map_of (scenes d) key of
        None \<Rightarrow> remove_loop sceneOrCtor keys d
      | Some potentialSceneOrOptions \<Rightarrow>
          if entry_ref potentialSceneOrOptions = sceneOrCtor then
            (if key = currentSceneName d
             then (Some (Error ''Cannot remove a currently active scene''), d)
             else remove_loop sceneOrCtor keys
                    (d\<lparr>sceneToInstance := AList.delete key (sceneToInstance d),
                       scenes := AList.delete key (scenes d)\<rparr>))
          else remove_loop sceneOrCtor keys d)"

definition remove :: "remove_arg \<Rightarrow> Director \<Rightarrow> error option \<times> Director" where
  "remove nameOrScene d =
     (case nameOrScene of
        ByRef sceneOrCtor \<Rightarrow> remove_loop sceneOrCtor (map fst (scenes d)) d
      | ByName nm \<Rightarrow>
          if nm = currentSceneName d
          then (Some (Error ''Cannot remove a currently active scene''), d)
          else (None, d\<lparr>sceneToInstance := AList.delete nm (sceneToInstance d),
                        scenes := AList.delete nm (scenes d)\<rparr>))"

subsection \<open>Example directors\<close>

definition no_throw :: hooks where
  "no_throw = (\<lambda>h this d. None)"

text \<open>The director of a room's engine as \<open>subscribeUser\<close> configures it: the scene
  \<open>main\<close> registered by constructor (class 1 stands for \<open>MainScene\<close>); then started, so
  that the root scene is current, initialized and activated.\<close>

definition room_director :: Director where
  "room_director = Director_new 0 [] [(''main'', Plain (Ctor (SceneClass 1)))]"

definition started_director :: Director where
  "started_director = snd (Director_onInitialize no_throw room_director)"

definition main_director :: Director where
  "main_director =
     snd (goToScene no_throw ''main'' (Some \<lparr>sceneActivationData = Some ''room-1''\<rparr>) started_director)"

text \<open>A director with a scene registered under the empty name, not yet started.\<close>

definition unnamed_director :: Director where
  "unnamed_director = Director_new 0 [] [([], Plain (Ctor (SceneClass 1)))]"

subsection \<open>Reading the trace\<close>

fun is_hook_call :: "hook \<Rightarrow> scene_id \<Rightarrow> event \<Rightarrow> bool" where
  "is_hook_call h this (HookCall h' this' c) = (h = h' \<and> this = this')"
| "is_hook_call h this ev = False"

text \<open>How often hook \<open>h\<close> of scene \<open>this\<close> has been called.\<close>

definition hook_calls :: "hook \<Rightarrow> scene_id \<Rightarrow> Director \<Rightarrow> nat" where
  "hook_calls h this d = length (filter (is_hook_call h this) (map fst (trace d)))"

text \<open>An event is without activation data when it is not a hook call, or a hook call whose
  context has \<open>data\<close> undefined.\<close>

fun no_data :: "event \<Rightarrow> bool" where
  "no_data (HookCall h this (Some c)) = (data c = None)"
| "no_data ev = True"

text \<open>\<open>d'\<close> has the trace of \<open>d\<close> followed by events without activation data.\<close>

definition adds_no_data :: "Director \<Rightarrow> Director \<Rightarrow> bool" where
  "adds_no_data d d' = (\<exists>evs. trace d' = trace d @ evs \<and> (\<forall>e\<in>set evs. no_data (fst e)))"

text \<open>Events that all happened while \<open>this\<close> was the current scene, under the name \<open>nm\<close>.\<close>

definition at_scene :: "scene_id \<Rightarrow> string \<Rightarrow> event list \<Rightarrow> (event \<times> scene_id \<times> string) list" where
  "at_scene this nm evs = map (\<lambda>ev. (ev, this, nm)) evs"

text \<open>The events a call has added to the trace of \<open>d\<close>.\<close>

definition new_events :: "Director \<Rightarrow> Director \<Rightarrow> (event \<times> scene_id \<times> string) list" where
  "new_events d d' = drop (length (trace d)) (trace d')"


section \<open>JavaScript numbers\<close>

text \<open>
  A JavaScript number is an IEEE 754 double: a finite value, which is a rational number,
  one of the two infinities, or NaN.  The two zeros are one value here (the main loop
  compares, adds, subtracts and multiplies, and none of these tells them apart).  Every
  operation returns the exact result rounded to the nearest double, a tie going to the
  double whose significand is even.
\<close>

datatype number = Fin rat | PosInf | NegInf | NaN

definition pow2 :: "int \<Rightarrow> rat" where
  "pow2 k = (if 0 \<le> k then 2 ^ nat k else 1 / 2 ^ nat (- k))"

text \<open>The exponent of a positive rational \<open>a\<close>, the integer \<open>e\<close> with
  \<open>2 ^ e \<le> a < 2 ^ (e + 1)\<close>.  For \<open>a = p / q\<close> it is the difference of the bit lengths of
  \<open>p\<close> and \<open>q\<close>, or one less.\<close>

definition exponent :: "rat \<Rightarrow> int" where
  "exponent a =
     (case quotient_of a of (p, q) \<Rightarrow>
        (let e0 = bitlen p - bitlen q in if pow2 e0 \<le> a then e0 else e0 - 1))"

definition round_half_even :: "rat \<Rightarrow> int" where
  "round_half_even m =
     (let n = \<lfloor>m\<rfloor>; d = m - of_int n
      in if d < 1 / 2 then n else if 1 / 2 < d then n + 1 else if even n then n else n + 1)"

text \<open>Rounding to a double.  The doubles of exponent \<open>e\<close> are the multiples of
  \<open>2 ^ (e - 52)\<close>, which gives them 53 significant bits; below \<open>2 ^ - 1022\<close> they are the
  multiples of \<open>2 ^ - 1074\<close>.  The largest double has the exponent 1023, and a value that
  rounds beyond it is infinite.\<close>

definition round64 :: "rat \<Rightarrow> number" where
  "round64 x =
     (if x = 0 then Fin 0
      else
        (let a = \<bar>x\<bar>;
             u = pow2 (max (exponent a) (- 1022) - 52);
             y = of_int (round_half_even (a / u)) * u
         in if 1024 \<le> exponent y then (if 0 < x then PosInf else NegInf)
            else Fin (if 0 < x then y else - y)))"

fun uminus64 :: "number \<Rightarrow> number" where
  "uminus64 (Fin a) = Fin (- a)"
| "uminus64 PosInf = NegInf"
| "uminus64 NegInf = PosInf"
| "uminus64 NaN = NaN"

text \<open>\<open>a + b\<close>, \<open>a - b\<close>, \<open>a * b\<close> and \<open>a >= b\<close>.\<close>

fun plus64 :: "number \<Rightarrow> number \<Rightarrow> number" where
  "plus64 (Fin a) (Fin b) = round64 (a + b)"
| "plus64 NaN b = NaN"
| "plus64 a NaN = NaN"
| "plus64 PosInf NegInf = NaN"
| "plus64 NegInf PosInf = NaN"
| "plus64 PosInf b = PosInf"
| "plus64 a PosInf = PosInf"
| "plus64 NegInf b = NegInf"
| "plus64 a NegInf = NegInf"

definition minus64 :: "number \<Rightarrow> number \<Rightarrow> number" where
  "minus64 a b = plus64 a (uminus64 b)"


fun ge64 :: "number \<Rightarrow> number \<Rightarrow> bool" where
  "ge64 (Fin a) (Fin b) = (b \<le> a)"
| "ge64 NaN b = False"
| "ge64 a NaN = False"
| "ge64 PosInf b = True"
| "ge64 a NegInf = True"
| "ge64 a b = False"


section \<open>The main loop (src/server/HeadlessEx/Engine.ts)\<close>

text \<open>
  The fields of the engine that \<open>_mainloop\<close> reads and writes.  \<open>fixedUpdateTimestep\<close> is
  \<open>None\<close> when the property is undefined.  The calls of \<open>_update\<close> are recorded, with
  their argument, in \<open>updates\<close>; the update of the current scene itself is not followed
  here, and a call is taken to return.
\<close>

record Engine =
  timescale :: number                     \<comment> \<open>\<open>_timescale\<close>\<close>
  fixedUpdateTimestep :: "number option"
  lagMs :: number                         \<comment> \<open>\<open>_lagMs\<close>\<close>
  currentFrameElapsedMs :: number
  currentFrameLagMs :: number
  updates :: "number list"

definition Engine_update :: "number \<Rightarrow> Engine \<Rightarrow> Engine" where
  "Engine_update elapsed e = e\<lparr>updates := updates e @ [elapsed]\<rparr>"

text \<open>The loop \<open>while (this._lagMs >= fixedTimestepMs)\<close>, with the rounding of
  \<open>this._lagMs -= fixedTimestepMs\<close>.  Nothing bounds the number of its iterations: it does
  not end with a timestep that is negative, and it does not end when the lag is so large
  that subtracting the timestep rounds back to the lag.\<close>

partial_function (option) catch_up :: "number \<Rightarrow> Engine \<Rightarrow> Engine option" where
  "catch_up fixedTimestepMs e =
     (if ge64 (lagMs e) fixedTimestepMs
      then catch_up fixedTimestepMs
             ((Engine_update fixedTimestepMs e)\<lparr>lagMs := minus64 (lagMs e) fixedTimestepMs\<rparr>)
      else Some e)"

declare catch_up.simps [code]



subsection \<open>Reading a run\<close>


text \<open>
  No operation of a run rounds.  For the timestep \<open>f\<close>, the lag \<open>l\<close> and the samples of a run
  with time scale 1, the values the loop computes are, for each sample \<open>s\<close>: the sample
  itself (the product with the time scale), the sum \<open>a = l + s\<close>, and the differences
  \<open>a - f\<close>, \<open>a - 2 f\<close>, down to the lag that is left.  \<open>exact_run\<close> holds when each of them
  is a double, so that rounding returns it unchanged.
\<close>

fun exact_run :: "rat \<Rightarrow> rat \<Rightarrow> rat list \<Rightarrow> bool" where
  "exact_run f l [] = True"
| "exact_run f l (s # rest) =
     (let a = l + s; k = nat \<lfloor>a / f\<rfloor>
      in round64 s = Fin s \<and> round64 a = Fin a \<and>
         list_all (\<lambda>j. round64 (a - of_nat j * f) = Fin (a - of_nat j * f)) [1..<Suc k] \<and>
         exact_run f (a - of_nat k * f) rest)"

subsection \<open>Example engines\<close>



section \<open>Facts about arrays and objects\<close>

lemma findIndex_none: "\<forall>a\<in>set as. \<not> P a \<Longrightarrow> findIndex P as = - 1"
  by (induction as) auto

lemma findIndex_neg_iff: "findIndex P as < 0 \<longleftrightarrow> (\<forall>a\<in>set as. \<not> P a)"
  by (induction as) (auto simp: Let_def)

lemma findIndex_some:
  "\<exists>a\<in>set as. P a \<Longrightarrow> findIndex P as = int (length (takeWhile (\<lambda>a. \<not> P a) as))"
  by (induction as) (auto simp: Let_def findIndex_neg_iff)

lemma length_takeWhile_lt:
  "\<exists>a\<in>set as. P a \<Longrightarrow> length (takeWhile (\<lambda>a. \<not> P a) as) < length as"
  by (induction as) auto

text \<open>\<open>splice(-1, 1)\<close> removes the last element, and nothing from an empty array.\<close>

lemma splice_last: "splice (- 1) 1 as = butlast as"
proof (cases "as = []")
  case True
  then show ?thesis by (simp add: splice_def)
next
  case False
  then have "nat (int (length as) - 1) = length as - 1" by simp
  with False show ?thesis
    by (simp add: splice_def Let_def butlast_conv_take max_def)
qed

lemma splice_at: "i < length as \<Longrightarrow> splice (int i) 1 as = take i as @ drop (Suc i) as"
  by (simp add: splice_def Let_def min_def nat_add_distrib)

lemma splice_first_match:
  assumes "\<exists>a\<in>set as. P a"
  shows "splice (findIndex P as) 1 as =
         takeWhile (\<lambda>a. \<not> P a) as @ tl (dropWhile (\<lambda>a. \<not> P a) as)"
proof -
  let ?n = "length (takeWhile (\<lambda>a. \<not> P a) as)"
  from assms have lt: "?n < length as"
    by (rule length_takeWhile_lt)
  have "take ?n as = takeWhile (\<lambda>a. \<not> P a) as"
    by (rule takeWhile_eq_take [symmetric])
  moreover have "drop (Suc ?n) as = tl (dropWhile (\<lambda>a. \<not> P a) as)"
    by (simp add: dropWhile_eq_drop drop_Suc tl_drop)
  ultimately show ?thesis
    using lt by (simp add: findIndex_some [OF assms] splice_at)
qed

lemma get_prop_Own: "map_of obj key = Some v \<Longrightarrow> get_prop obj key = Own v"
  by (simp add: get_prop_def)

section \<open>The room server\<close>

lemmas actor_defs =
  clientActor_def npcActor_def movePlayer_def moveUp_def moveDown_def moveLeft_def moveRight_def
  andThen_def getIsColliding_def playerSpeed_def onPreUpdate_def onCollisionStart_def

lemmas room_defs =
  room_of_def room_state_def transmit_def updateEntities_def get_prop_def room_key_def
  set_entities_def room_entities_def room_players_def last_snapshot_def

subsection \<open>Collision resolution\<close>

text \<open>
  After the resolution of a contact on the bottom side, the box of a \<open>ClientActor\<close> whose
  \<open>pos\<close> has been brought up to date by \<open>onPreUpdate\<close> ends exactly where the box of the
  other actor begins, and \<open>pos\<close> and \<open>position\<close> agree.
\<close>

lemma bottom_contact_adjacent:
  assumes "actorClass a = ClientActor"
  shows "vy (pos (onCollisionStart (onPreUpdate a) b Side_Bottom)) + height a = vy (pos b)"
    and "qy (position (onCollisionStart (onPreUpdate a) b Side_Bottom)) =
         vy (pos (onCollisionStart (onPreUpdate a) b Side_Bottom))"
    and "qx (position (onCollisionStart (onPreUpdate a) b Side_Bottom)) = qx (position a)"
  using assms by (simp_all add: onPreUpdate_def onCollisionStart_def Let_def)

text \<open>
  Claim C5.  A \<open>ClientActor\<close> with a 24 by 24 box at \<open>(100, 100)\<close> that holds "down" is moved
  by \<open>playerSpeed\<close> to \<open>y = 104\<close>, into the fixed actor with a 24 by 24 box at \<open>(100, 124)\<close>.
  Its \<open>onPreUpdate\<close> copies the new position into \<open>pos\<close>, which is what makes the boxes
  overlap, and \<open>onCollisionStart\<close> runs once for the contact on its bottom side.  Afterwards
  \<open>position.y\<close> is exactly 100, so is \<open>pos.y\<close>, and the lower edge of the actor's box is the
  upper edge of the other box.
\<close>

theorem collision_resolution_exact:
  "movePlayer c5_actor = (Next, c5_actor\<lparr>position := \<lparr>qx = 100, qy = 104, qz = 0, qw = 0\<rparr>\<rparr>) \<and>
   qy (position (onCollisionStart (onPreUpdate (snd (movePlayer c5_actor))) c5_fixed Side_Bottom)) = 100 \<and>
   vy (pos (onCollisionStart (onPreUpdate (snd (movePlayer c5_actor))) c5_fixed Side_Bottom)) = 100 \<and>
   vy (pos (onCollisionStart (onPreUpdate (snd (movePlayer c5_actor))) c5_fixed Side_Bottom)) +
     height (onCollisionStart (onPreUpdate (snd (movePlayer c5_actor))) c5_fixed Side_Bottom) =
     vy (pos c5_fixed)"
  by (simp add: c5_actor_def c5_fixed_def actor_defs Let_def)

subsection \<open>Movement gating\<close>

text \<open>A player that holds "up" while in contact on the top side ends the whole function:
  the loop returns with no entity changed, whatever else the player holds and whoever
  comes later in the list.\<close>

lemma movePlayer_blocked_up:
  assumes "''up'' \<in> set (directions pEnt)" and "actorClass pEnt = ClientActor"
    and "isColliding (collisionData pEnt)" and "collisionDirection (collisionData pEnt) = Side_Top"
  shows "movePlayer pEnt = (Return, pEnt)"
proof -
  from assms(1) have "directions pEnt \<noteq> []" by auto
  with assms show ?thesis
    by (simp add: movePlayer_def moveUp_def andThen_def getIsColliding_def)
qed

lemma update_first_same: "find P ents = Some a \<Longrightarrow> update_first P a ents = ents"
  by (induction ents) (auto split: if_splits)

lemma updateEntities_loop_blocked_up:
  assumes "find (\<lambda>entity. uuid entity = ste_id player) ents = Some pEnt"
    and "''up'' \<in> set (directions pEnt)" and "actorClass pEnt = ClientActor"
    and "isColliding (collisionData pEnt)" and "collisionDirection (collisionData pEnt) = Side_Top"
  shows "updateEntities_loop (player # rest) ents = (Return, ents)"
  using assms(1) movePlayer_blocked_up [OF assms(2-5)]
  by (simp add: update_first_same)

text \<open>
  Claim C1.  In the room \<open>c1_room\<close> the first player, alice, holds "up" and "left" and is in
  contact on her top side; bob, processed after her, holds "right" and is in contact with
  nothing.  The claim asks that alice is not moved up but is moved left by \<open>playerSpeed\<close>,
  and that bob's movement is unaffected.  The guard of "up" executes \<open>return\<close>, which leaves
  \<open>updateEntities\<close>: the room is unchanged, so alice is not moved left, and bob, who alone
  would be moved to \<open>x = 304\<close>, is not moved at all.  Alice's "left" is not blocked in itself:
  \<open>moveLeft\<close> alone moves her to \<open>x = 96\<close>.
\<close>

theorem blocked_up_aborts_movement_pass:
  "updateEntities (Some ''r'') c1_room = (None, c1_room) \<and>
   moveLeft c1_alice = (Next, c1_alice\<lparr>position := \<lparr>qx = 96, qy = 100, qz = 0, qw = 0\<rparr>\<rparr>) \<and>
   movePlayer c1_bob = (Next, c1_bob\<lparr>position := \<lparr>qx = 304, qy = 300, qz = 0, qw = 0\<rparr>\<rparr>)"
  by (simp add: c1_room_def c1_alice_def c1_bob_def c1_npc_def room_defs actor_defs)

subsection \<open>Unsubscribing\<close>

text \<open>
  Claim C9, as the code has it.  For an existing room, \<open>unsubscribeUser\<close> does not throw.
  When no entry of \<open>players\<close> has the network id \<open>uid\<close>, the index is \<open>-1\<close> and \<open>splice\<close>
  removes the last entry; from an empty list it removes nothing.  When an entry matches,
  exactly the first matching entry is removed.
\<close>

theorem unsubscribeUser_players:
  assumes "map_of (rooms srv) rid = Some rm"
  shows "fst (unsubscribeUser rid uid srv) = None \<and>
     room_players rid (snd (unsubscribeUser rid uid srv)) =
       (if \<forall>p\<in>set (players rm). networkId p \<noteq> uid then butlast (players rm)
        else takeWhile (\<lambda>p. networkId p \<noteq> uid) (players rm) @
             tl (dropWhile (\<lambda>p. networkId p \<noteq> uid) (players rm)))"
proof (cases "\<forall>p\<in>set (players rm). networkId p \<noteq> uid")
  case True
  then have "findIndex (\<lambda>player. networkId player = uid) (players rm) = - 1"
    by (intro findIndex_none) simp
  with True show ?thesis
    by (simp add: unsubscribeUser_def get_prop_Own [OF assms] Let_def splice_last
          room_players_def update_conv')
next
  case False
  then have "\<exists>p\<in>set (players rm). networkId p = uid" by simp
  from splice_first_match [where P = "\<lambda>player. networkId player = uid", OF this] False
  show ?thesis
    by (auto simp: unsubscribeUser_def get_prop_Own [OF assms] Let_def
          room_players_def update_conv')
qed

theorem unsubscribeUser_players_witness:
  "map_of (rooms c9_room) ''r'' \<noteq> None \<and>
   fst (unsubscribeUser ''r'' ''bob'' c9_room) = None \<and>
   room_players ''r'' (snd (unsubscribeUser ''r'' ''bob'' c9_room)) =
     [transmit [] (npcActor ''n1'' 10 10), transmit [] (npcActor ''n2'' 50 50),
      transmit [] (npcActor ''n3'' 90 90)] \<and>
   room_players ''r'' (snd (unsubscribeUser ''r'' ''alice'' c9_room)) =
     [transmit [] (npcActor ''n1'' 10 10), transmit [] (npcActor ''n2'' 50 50),
      transmit [] (npcActor ''n3'' 90 90)] \<and>
   room_players ''r'' (snd (unsubscribeUser ''r'' [] c9_room)) =
     [transmit [] (npcActor ''n2'' 50 50), transmit [] (npcActor ''n3'' 90 90),
      transmit ''alice'' (clientActor ''alice'' ''u1'' 100 100)]"
proof -
  let ?rm = "room_state ''r''
       [transmit [] (npcActor ''n1'' 10 10), transmit [] (npcActor ''n2'' 50 50),
        transmit [] (npcActor ''n3'' 90 90), transmit ''alice'' (clientActor ''alice'' ''u1'' 100 100)]
       [npcActor ''n1'' 10 10, npcActor ''n2'' 50 50, npcActor ''n3'' 90 90,
        clientActor ''alice'' ''u1'' 100 100]"
  have rm: "map_of (rooms c9_room) ''r'' = Some ?rm"
    by (simp add: c9_room_def room_of_def)
  show ?thesis
    using rm unsubscribeUser_players [OF rm, of "''bob''"]
      unsubscribeUser_players [OF rm, of "''alice''"] unsubscribeUser_players [OF rm, of "[]"]
    by (simp add: room_state_def transmit_def npcActor_def clientActor_def)
qed

text \<open>
  Claim C9 as stated fails on an empty list.  Unsubscribing alice four times from
  \<open>c9_room\<close> removes her entry and then, one by one, the three NPC entries; the room still
  exists and its list of players is empty.  A fifth call finds no matching entry and
  removes nothing.
\<close>

theorem unsubscribeUser_empty_counterexample:
  "map_of (rooms c9_emptied) ''r'' \<noteq> None \<and>
   room_players ''r'' c9_emptied = [] \<and>
   fst (unsubscribeUser ''r'' ''alice'' c9_emptied) = None \<and>
   room_players ''r'' (snd (unsubscribeUser ''r'' ''alice'' c9_emptied)) = room_players ''r'' c9_emptied"
  by (simp add: c9_emptied_def c9_room_def unsubscribeUser_def splice_def kill_def
      room_defs npcActor_def clientActor_def Let_def)

subsection \<open>The snapshot of a tick\<close>

text \<open>Moving the players changes \<open>position\<close> only: the name, the uuid and \<open>pos\<close> of every
  entity, which is all the snapshot reads, stay as they are.\<close>

lemma moveUp_snapshot: "snapshot_of (snd (moveUp a)) = snapshot_of a"
  by (simp add: moveUp_def snapshot_of_def split: sum.splits)

lemma moveDown_snapshot: "snapshot_of (snd (moveDown a)) = snapshot_of a"
  by (simp add: moveDown_def snapshot_of_def split: sum.splits)

lemma moveLeft_snapshot: "snapshot_of (snd (moveLeft a)) = snapshot_of a"
  by (simp add: moveLeft_def snapshot_of_def split: sum.splits)

lemma moveRight_snapshot: "snapshot_of (snd (moveRight a)) = snapshot_of a"
  by (simp add: moveRight_def snapshot_of_def split: sum.splits)

lemma andThen_snapshot:
  assumes "snapshot_of (snd r) = s" and "\<And>a. snapshot_of (snd (f a)) = snapshot_of a"
  shows "snapshot_of (snd (andThen r f)) = s"
  using assms by (cases r) (auto simp: andThen_def split: flow.splits)

lemma movePlayer_snapshot: "snapshot_of (snd (movePlayer a)) = snapshot_of a"
  unfolding movePlayer_def
  by (auto intro!: andThen_snapshot moveUp_snapshot moveDown_snapshot moveLeft_snapshot
        moveRight_snapshot)

lemma update_first_snapshot:
  "find P ents = Some a \<Longrightarrow> snapshot_of b = snapshot_of a \<Longrightarrow>
   map snapshot_of (update_first P b ents) = map snapshot_of ents"
  by (induction ents) (auto split: if_splits)

lemma updateEntities_loop_snapshot:
  "map snapshot_of (snd (updateEntities_loop ps ents)) = map snapshot_of ents"
proof (induction ps arbitrary: ents)
  case Nil
  then show ?case by simp
next
  case (Cons player rest)
  show ?case
  proof (cases "find (\<lambda>entity. uuid entity = ste_id player) ents")
    case None
    then show ?thesis by simp
  next
    case (Some pEnt)
    obtain fl pEnt' where mv: "movePlayer pEnt = (fl, pEnt')"
      by (cases "movePlayer pEnt")
    then have "snapshot_of pEnt' = snapshot_of pEnt"
      using movePlayer_snapshot [of pEnt] by simp
    then have "map snapshot_of (update_first (\<lambda>entity. uuid entity = ste_id player) pEnt' ents)
       = map snapshot_of ents"
      using Some by (rule update_first_snapshot [rotated])
    with Some mv Cons.IH show ?thesis
      by (cases fl) simp_all
  qed
qed

lemma map_of_set_entities:
  "map_of (rooms (set_entities key ents srv)) k =
     (if k = key
      then map_option (\<lambda>ws. ws\<lparr>gameEngine := (gameEngine ws)\<lparr>entities := ents\<rparr>\<rparr>) (map_of (rooms srv) k)
      else map_of (rooms srv) k)"
proof -
  have "map_of (map (\<lambda>(k, ws). if k = key then (k, f ws) else (k, ws)) kvs) k =
        (if k = key then map_option f (map_of kvs k) else map_of kvs k)"
    for f and kvs :: "(string \<times> WorldState) list"
    by (induction kvs) auto
  then show ?thesis by (simp add: set_entities_def)
qed

lemma broadcasts_set_entities [simp]: "broadcasts (set_entities key ents srv) = broadcasts srv"
  by (simp add: set_entities_def)

lemma updateEntities_room:
  assumes "map_of (rooms srv) (room_key rm) = Some rs"
  shows "\<exists>ents. map snapshot_of ents = map snapshot_of (entities (gameEngine rs)) \<and>
     snd (updateEntities rm srv) = set_entities (room_key rm) ents srv"
proof -
  obtain fl ents where l: "updateEntities_loop (players rs) (entities (gameEngine rs)) = (fl, ents)"
    by (cases "updateEntities_loop (players rs) (entities (gameEngine rs))")
  then have "map snapshot_of ents = map snapshot_of (entities (gameEngine rs))"
    using updateEntities_loop_snapshot [of "players rs" "entities (gameEngine rs)"] by simp
  moreover have "snd (updateEntities rm srv) = set_entities (room_key rm) ents srv"
    using l by (cases fl) (simp_all add: updateEntities_def get_prop_Own [OF assms])
  ultimately show ?thesis by blast
qed

text \<open>
  Claim C2, as the code has it.  The snapshot is built in \<open>onPreUpdate\<close>, which
  \<open>Scene.update\<close> calls before \<open>world.update\<close>, and it reads \<open>pos\<close>, which the movement
  of the players does not write.  So whatever the world pass of this call does, the message
  broadcast by a call of \<open>Scene.update\<close> that returns normally carries, for each entity of
  the scene's room, the \<open>pos\<close> the entity had when the call began: the state the previous
  tick left, before this tick's movement and before this tick's collision resolution.
\<close>

theorem snapshot_is_taken_before_world_update:
  assumes ws: "map_of (rooms srv) key = Some ws"
    and init: "sceneInitialized (gameEngine ws)"
    and rs: "map_of (rooms srv) (room_key (room (gameEngine ws))) = Some rs"
    and upd: "Scene_update world_update key srv = (None, srv')"
  shows "broadcasts srv' = broadcasts srv @
           [(room (gameEngine ws),
             \<lparr>snapshot = map snapshot_of (entities (gameEngine rs)),
              update_roomId = room (gameEngine ws)\<rparr>)]"
proof -
  let ?rm = "room (gameEngine ws)"
  from updateEntities_room [OF rs] obtain ents where
    snap: "map snapshot_of ents = map snapshot_of (entities (gameEngine rs))" and
    s1: "snd (updateEntities ?rm srv) = set_entities (room_key ?rm) ents srv"
    by blast
  obtain r where ue: "updateEntities ?rm srv = (r, set_entities (room_key ?rm) ents srv)"
    using s1 by (cases "updateEntities ?rm srv") simp
  let ?srv1 = "set_entities (room_key ?rm) ents srv"
  have own: "get_prop (rooms ?srv1) (room_key ?rm) =
      Own (rs\<lparr>gameEngine := (gameEngine rs)\<lparr>entities := ents\<rparr>\<rparr>)"
    by (rule get_prop_Own) (simp add: map_of_set_entities rs)
  show ?thesis
  proof (cases r)
    case None
    with ue own have pre: "MainScene_onPreUpdate (gameEngine ws) srv =
        (None, ?srv1\<lparr>broadcasts := broadcasts ?srv1 @
           [(?rm, \<lparr>snapshot = map snapshot_of ents, update_roomId = ?rm\<rparr>)]\<rparr>)"
      by (simp add: MainScene_onPreUpdate_def Let_def)
    from upd ws init pre snap show ?thesis
      by (auto simp: Scene_update_def split: option.splits)
  next
    case (Some e)
    with ue have "MainScene_onPreUpdate (gameEngine ws) srv = (Some e, ?srv1)"
      by (simp add: MainScene_onPreUpdate_def)
    with upd ws init show ?thesis
      by (simp add: Scene_update_def)
  qed
qed

text \<open>The tick of \<open>c2_room\<close> in which the collision system reports the contact of alice's
  bottom side with the fixed actor, evaluated.\<close>

lemma c2_tick:
  "fst (Scene_update (world_pass [(0, 1, Side_Bottom)]) ''r'' c2_room) = None"
  "map pos (room_entities ''r'' (snd (Scene_update (world_pass [(0, 1, Side_Bottom)]) ''r'' c2_room))) =
     [\<lparr>vx = 104, vy = 100\<rparr>, \<lparr>vx = 100, vy = 124\<rparr>]"
  "map collisionData (room_entities ''r'' (snd (Scene_update (world_pass [(0, 1, Side_Bottom)]) ''r'' c2_room))) =
     [\<lparr>isColliding = True, collisionDirection = Side_Bottom, other = Some ''n1''\<rparr>,
      \<lparr>isColliding = False, collisionDirection = Side_None, other = None\<rparr>]"
  "map snap_position (last_snapshot (snd (Scene_update (world_pass [(0, 1, Side_Bottom)]) ''r'' c2_room))) =
     [\<lparr>qx = 100, qy = 100, qz = 0, qw = 0\<rparr>, \<lparr>qx = 100, qy = 124, qz = 0, qw = 0\<rparr>]"
  by (simp_all add: c2_room_def c2_alice_def c2_npc_def Scene_update_def MainScene_onPreUpdate_def
      world_pass_def apply_contact_def snapshot_of_def room_defs actor_defs Let_def)

theorem snapshot_is_taken_before_world_update_witness:
  "map_of (rooms c2_room) ''r'' =
     Some (room_state ''r'' [transmit [] c2_npc, transmit ''alice'' c2_alice] [c2_alice, c2_npc]) \<and>
   fst (Scene_update (world_pass [(0, 1, Side_Bottom)]) ''r'' c2_room) = None \<and>
   broadcasts (snd (Scene_update (world_pass [(0, 1, Side_Bottom)]) ''r'' c2_room)) =
     [(Some ''r'', \<lparr>snapshot = [snapshot_of c2_alice, snapshot_of c2_npc], update_roomId = Some ''r''\<rparr>)]"
proof -
  let ?ws = "room_state ''r'' [transmit [] c2_npc, transmit ''alice'' c2_alice] [c2_alice, c2_npc]"
  have ws: "map_of (rooms c2_room) ''r'' = Some ?ws"
    by (simp add: c2_room_def room_of_def)
  have init: "sceneInitialized (gameEngine ?ws)"
    by (simp add: room_state_def)
  have rs: "map_of (rooms c2_room) (room_key (room (gameEngine ?ws))) = Some ?ws"
    by (simp add: c2_room_def room_of_def room_state_def room_key_def)
  have upd: "Scene_update (world_pass [(0, 1, Side_Bottom)]) ''r'' c2_room =
      (None, snd (Scene_update (world_pass [(0, 1, Side_Bottom)]) ''r'' c2_room))"
    using c2_tick(1) by (simp add: prod_eq_iff)
  from snapshot_is_taken_before_world_update [OF ws init rs upd] ws c2_tick(1)
  show ?thesis
    by (simp add: c2_room_def room_of_def room_state_def)
qed

text \<open>
  Claim C2 as stated fails.  In the tick of \<open>c2_room\<close> alice, at \<open>(100, 100)\<close>, holds "down"
  and "right" and collides with the fixed actor below her: after the tick's collision
  resolution she is in contact on her bottom side and her position is \<open>(104, 100)\<close>.  The
  snapshot broadcast in that same tick gives her position as \<open>(100, 100)\<close>.
\<close>

theorem snapshot_not_post_resolution_counterexample:
  "fst (Scene_update (world_pass [(0, 1, Side_Bottom)]) ''r'' c2_room) = None \<and>
   isColliding (collisionData
     (room_entities ''r'' (snd (Scene_update (world_pass [(0, 1, Side_Bottom)]) ''r'' c2_room)) ! 0)) \<and>
   pos (room_entities ''r'' (snd (Scene_update (world_pass [(0, 1, Side_Bottom)]) ''r'' c2_room)) ! 0) =
     \<lparr>vx = 104, vy = 100\<rparr> \<and>
   snap_position (last_snapshot (snd (Scene_update (world_pass [(0, 1, Side_Bottom)]) ''r'' c2_room)) ! 0) =
     \<lparr>qx = 100, qy = 100, qz = 0, qw = 0\<rparr>"
  by (simp add: c2_room_def c2_alice_def c2_npc_def Scene_update_def MainScene_onPreUpdate_def
      world_pass_def apply_contact_def snapshot_of_def room_defs actor_defs Let_def)

section \<open>Scenes and the Director\<close>

lemma trace_emit [simp]: "trace (emit ev d) = trace d @ [(ev, currentScene d, currentSceneName d)]"
  by (simp add: emit_def)

lemma heap_emit [simp]: "heap (emit ev d) = heap d"
  by (simp add: emit_def)

lemma current_emit [simp]:
  "currentScene (emit ev d) = currentScene d"
  "currentSceneName (emit ev d) = currentSceneName d"
  "engine_ref (emit ev d) = engine_ref d"
  by (simp_all add: emit_def)

lemma trace_update_scene [simp]: "trace (update_scene this f d) = trace d"
  by (simp add: update_scene_def)

lemma heap_update_scene [simp]:
  "heap (update_scene this f d) = (heap d)(this := f (heap d this))"
  by (simp add: update_scene_def)

lemma current_update_scene [simp]:
  "currentScene (update_scene this f d) = currentScene d"
  "currentSceneName (update_scene this f d) = currentSceneName d"
  by (simp_all add: update_scene_def)

text \<open>Looking a destination up leaves the trace, the pointers and every scene object that
  exists already as they are.\<close>

lemma getSceneInstance_frame:
  assumes "getSceneInstance nm d = (m, d1)"
  shows "trace d1 = trace d" "currentScene d1 = currentScene d"
    "currentSceneName d1 = currentSceneName d" "engine_ref d1 = engine_ref d"
    "director_initialized d1 = director_initialized d"
    "i < nextId d \<Longrightarrow> heap d1 i = heap d i"
  using assms
  by (auto simp: getSceneInstance_def alloc_def split: option.splits scene_ref.splits)

lemmas director_defs =
  Director_new_def Director_onInitialize_def goToScene_def swapScene_def getSceneInstance_def
  getSceneDefinition_def get_prop_def add_def alloc_def new_Scene_def emit_def emitEvent_def
  call_hook_def update_scene_def Scene_initialize_def Scene_activate_def Scene_deactivate_def
  Scene_isInitialized_def no_throw_def Object_prototype_keys_def Let_def

text \<open>The example directors, evaluated.\<close>

lemma room_director_facts:
  "\<not> director_initialized room_director"
  "currentScene room_director = 0"
  "currentSceneName room_director = ''root''"
  "sceneClass (heap room_director 0) = SceneClass 0"
  "\<not> isInitialized (heap room_director 0)"
  "trace room_director = []"
  "scenes room_director = [(''root'', Plain (Inst 0)), (''main'', Plain (Ctor (SceneClass 1)))]"
  by (simp_all add: room_director_def director_defs)

lemma started_director_facts:
  "director_initialized started_director"
  "currentScene started_director = 0"
  "currentSceneName started_director = ''root''"
  "nextId started_director = 1"
  "Scene_isInitialized started_director 0"
  "scenes started_director = [(''root'', Plain (Inst 0)), (''main'', Plain (Ctor (SceneClass 1)))]"
  "sceneToInstance started_director = [(''root'', 0)]"
  by (simp_all add: started_director_def room_director_def director_defs)

lemma main_director_facts:
  "director_initialized main_director"
  "currentScene main_director = 1"
  "currentSceneName main_director = ''main''"
  "scenes main_director = [(''root'', Plain (Inst 0)), (''main'', Plain (Ctor (SceneClass 1)))]"
  "sceneToInstance main_director = [(''root'', 0), (''main'', 1)]"
  "nextId main_director = 2"
  "sceneClass (heap main_director 1) = SceneClass 1"
  "isInitialized (heap main_director 1)"
  by (simp_all add: main_director_def started_director_def room_director_def director_defs)

subsection \<open>Initialization runs once\<close>

text \<open>
  Claim C7.  For a scene that has not been initialized, a call of \<open>_initialize\<close> that
  completes without an exception has called the override \<open>onInitialize\<close> exactly once and
  has set the flag; a call after it, with any engine and whatever the hooks would do,
  returns at once and leaves the whole state, the scene included, as it is.  So two calls in
  sequence, and any number of further ones, run \<open>onInitialize\<close> once.
\<close>

theorem Scene_initialize_once:
  assumes scene: "sceneClass (heap d this) \<noteq> Object"
    and fresh: "\<not> isInitialized (heap d this)"
    and first: "Scene_initialize H this eng d = (None, d1)"
  shows "hook_calls OnInitialize this d1 = hook_calls OnInitialize this d + 1 \<and>
         isInitialized (heap d1 this) \<and>
         Scene_initialize H' this eng' d1 = (None, d1) \<and>
         hook_calls OnInitialize this (snd (Scene_initialize H' this eng' d1)) =
           hook_calls OnInitialize this d + 1"
proof -
  from first scene fresh have
    d1: "d1 = update_scene this (\<lambda>s. s\<lparr>isInitialized := True\<rparr>)
           (emit (SceneEmit ''initialize'' this) (emit (Log Debug ''Scene.onInitialize'')
             (emit (InitializeChildren this) (emit (HookCall OnInitialize this None)
               (emit (SystemsInitialize this)
                 (update_scene this (\<lambda>s. s\<lparr>engine := Some eng\<rparr>) d))))))"
    by (auto simp: Scene_initialize_def Scene_isInitialized_def call_hook_def Let_def
          split: option.splits)
  have once: "hook_calls OnInitialize this d1 = hook_calls OnInitialize this d + 1"
    by (simp add: d1 hook_calls_def)
  have "isInitialized (heap d1 this)" and "sceneClass (heap d1 this) \<noteq> Object"
    using scene by (simp_all add: d1)
  then have "isInitialized (heap d1 this)"
    and "Scene_initialize H' this eng' d1 = (None, d1)"
    by (simp_all add: Scene_initialize_def Scene_isInitialized_def)
  with once show ?thesis by simp
qed

theorem Scene_initialize_once_witness:
  "sceneClass (heap room_director 0) \<noteq> Object \<and>
   \<not> isInitialized (heap room_director 0) \<and>
   fst (Scene_initialize no_throw 0 0 room_director) = None \<and>
   hook_calls OnInitialize 0 room_director = 0 \<and>
   hook_calls OnInitialize 0 (snd (Scene_initialize no_throw 0 0 room_director)) = 1 \<and>
   hook_calls OnInitialize 0
     (snd (Scene_initialize no_throw 0 0 (snd (Scene_initialize no_throw 0 0 room_director)))) = 1"
proof -
  have scene: "sceneClass (heap room_director 0) \<noteq> Object"
    and fresh: "\<not> isInitialized (heap room_director 0)"
    by (simp_all add: room_director_facts)
  have ok: "fst (Scene_initialize no_throw 0 0 room_director) = None"
    using scene fresh
    by (simp add: Scene_initialize_def Scene_isInitialized_def call_hook_def no_throw_def Let_def)
  then have first: "Scene_initialize no_throw 0 0 room_director =
      (None, snd (Scene_initialize no_throw 0 0 room_director))"
    by (simp add: prod_eq_iff)
  have zero: "hook_calls OnInitialize 0 room_director = 0"
    by (simp add: hook_calls_def room_director_facts)
  from Scene_initialize_once [OF scene fresh first, of no_throw 0] scene fresh ok zero
  show ?thesis by simp
qed

subsection \<open>Swapping scenes\<close>

text \<open>
  The trace of a navigation that goes through: the destination resolves to a \<open>Scene\<close>,
  and no hook throws.  The events up to the end of the deactivation of the scene that was
  current happen under the old pointers; all events of the destination's initialization
  and activation happen under the new ones.
\<close>

lemma swapScene_trace:
  assumes init: "director_initialized d"
    and dest: "getSceneInstance destinationScene d = (Some Y, d1)"
    and scene: "sceneClass (heap d1 Y) \<noteq> Object"
    and hooks: "\<forall>h this d'. H h this d' = None"
  shows "fst (swapScene H destinationScene dat d) = None"
    and "currentScene (snd (swapScene H destinationScene dat d)) = Y"
    and "currentSceneName (snd (swapScene H destinationScene dat d)) = destinationScene"
    and "Scene_isInitialized (snd (swapScene H destinationScene dat d)) Y"
    and "trace (snd (swapScene H destinationScene dat d)) = trace d @
       at_scene (currentScene d) (currentSceneName d)
         (Log Debug ''Going to scene:'' #
          (if Scene_isInitialized d1 (currentScene d) then
             [Log Debug ''Scene.onDeactivate'',
              HookCall OnDeactivate (currentScene d)
                (Some \<lparr>previousScene = currentScene d, nextScene = Y, data = None\<rparr>),
              SceneEmit ''deactivate'' (currentScene d)]
           else [])) @
       at_scene Y destinationScene
         ((if Scene_isInitialized d1 Y then []
           else [SystemsInitialize Y, HookCall OnInitialize Y None, InitializeChildren Y,
                 Log Debug ''Scene.onInitialize'', SceneEmit ''initialize'' Y]) @
          [Log Debug ''Scene.onActivate'',
           HookCall OnActivate Y
             (Some \<lparr>previousScene = currentScene d, nextScene = Y, data = dat\<rparr>),
           SceneEmit ''activate'' Y])"
  using init scene
  by (simp_all add: swapScene_def dest getSceneInstance_frame [OF dest] Let_def
      Scene_deactivate_def Scene_activate_def Scene_initialize_def call_hook_def hooks
      Scene_isInitialized_def at_scene_def)

text \<open>
  Claim C3, as the code has it.  The Director is initialized, the current scene \<open>X\<close> is
  initialized, the destination name resolves to the scene \<open>Y\<close>, and no hook throws.  Then
  \<open>swapScene\<close> completes, and its events are, in this order: the deactivation of \<open>X\<close>, all
  of it while \<open>currentScene\<close> and \<open>currentSceneName\<close> still point to \<open>X\<close>; then, after
  the pointers have been set to \<open>Y\<close>, the initialization of \<open>Y\<close> (when \<open>Y\<close> was not
  initialized before) and the activation of \<open>Y\<close>.  The pointers change between the end of
  the deactivation of \<open>X\<close> and the beginning of \<open>_initialize\<close> of \<open>Y\<close>, not after the
  activation of \<open>Y\<close>.
\<close>

theorem swapScene_order:
  assumes init: "director_initialized d"
    and wf: "currentScene d < nextId d"
    and cur: "Scene_isInitialized d (currentScene d)"
    and dest: "getSceneInstance destinationScene d = (Some Y, d1)"
    and scene: "sceneClass (heap d1 Y) \<noteq> Object"
    and hooks: "\<forall>h this d'. H h this d' = None"
  shows "fst (swapScene H destinationScene dat d) = None \<and>
     currentScene (snd (swapScene H destinationScene dat d)) = Y \<and>
     currentSceneName (snd (swapScene H destinationScene dat d)) = destinationScene \<and>
     new_events d (snd (swapScene H destinationScene dat d)) =
       at_scene (currentScene d) (currentSceneName d)
         [Log Debug ''Going to scene:'', Log Debug ''Scene.onDeactivate'',
          HookCall OnDeactivate (currentScene d)
            (Some \<lparr>previousScene = currentScene d, nextScene = Y, data = None\<rparr>),
          SceneEmit ''deactivate'' (currentScene d)] @
       at_scene Y destinationScene
         ((if Scene_isInitialized d1 Y then []
           else [SystemsInitialize Y, HookCall OnInitialize Y None, InitializeChildren Y,
                 Log Debug ''Scene.onInitialize'', SceneEmit ''initialize'' Y]) @
          [Log Debug ''Scene.onActivate'',
           HookCall OnActivate Y
             (Some \<lparr>previousScene = currentScene d, nextScene = Y, data = dat\<rparr>),
           SceneEmit ''activate'' Y])"
proof -
  have cur1: "Scene_isInitialized d1 (currentScene d)"
    using cur getSceneInstance_frame(6) [OF dest wf] by (simp add: Scene_isInitialized_def)
  show ?thesis
    using swapScene_trace [OF init dest scene hooks, where dat = dat] cur1
    by (simp add: new_events_def)
qed

text \<open>Resolving \<open>main\<close> in the started director creates the scene object 1.\<close>

lemma started_director_main:
  "fst (getSceneInstance ''main'' started_director) = Some 1"
  "sceneClass (heap (snd (getSceneInstance ''main'' started_director)) 1) = SceneClass 1"
  "\<not> Scene_isInitialized (snd (getSceneInstance ''main'' started_director)) 1"
  by (simp_all add: getSceneInstance_def getSceneDefinition_def get_prop_def alloc_def
      new_Scene_def Scene_isInitialized_def started_director_facts)

theorem swapScene_order_witness:
  "director_initialized started_director \<and>
   Scene_isInitialized started_director (currentScene started_director) \<and>
   fst (swapScene no_throw ''main'' (Some ''room-1'') started_director) = None \<and>
   currentScene (snd (swapScene no_throw ''main'' (Some ''room-1'') started_director)) = 1 \<and>
   currentSceneName (snd (swapScene no_throw ''main'' (Some ''room-1'') started_director)) = ''main'' \<and>
   new_events started_director (snd (swapScene no_throw ''main'' (Some ''room-1'') started_director)) =
     [(Log Debug ''Going to scene:'', 0, ''root''),
      (Log Debug ''Scene.onDeactivate'', 0, ''root''),
      (HookCall OnDeactivate 0 (Some \<lparr>previousScene = 0, nextScene = 1, data = None\<rparr>), 0, ''root''),
      (SceneEmit ''deactivate'' 0, 0, ''root''),
      (SystemsInitialize 1, 1, ''main''),
      (HookCall OnInitialize 1 None, 1, ''main''),
      (InitializeChildren 1, 1, ''main''),
      (Log Debug ''Scene.onInitialize'', 1, ''main''),
      (SceneEmit ''initialize'' 1, 1, ''main''),
      (Log Debug ''Scene.onActivate'', 1, ''main''),
      (HookCall OnActivate 1 (Some \<lparr>previousScene = 0, nextScene = 1, data = Some ''room-1''\<rparr>),
       1, ''main''),
      (SceneEmit ''activate'' 1, 1, ''main'')]"
proof -
  have init: "director_initialized started_director"
    and wf: "currentScene started_director < nextId started_director"
    and cur: "Scene_isInitialized started_director (currentScene started_director)"
    by (simp_all add: started_director_facts)
  have dest: "getSceneInstance ''main'' started_director =
      (Some 1, snd (getSceneInstance ''main'' started_director))"
    using started_director_main(1) by (simp add: prod_eq_iff)
  have scene: "sceneClass (heap (snd (getSceneInstance ''main'' started_director)) 1) \<noteq> Object"
    using started_director_main(2) by simp
  have hooks: "\<forall>h this d'. no_throw h this d' = None"
    by (simp add: no_throw_def)
  from swapScene_order [OF init wf cur dest scene hooks, where dat = "Some ''room-1''"] init cur
    started_director_main(3)
  show ?thesis
    by (simp add: started_director_facts at_scene_def)
qed

text \<open>
  Claim C3 as stated fails in its last part.  In the navigation from the root scene (object
  0) to \<open>main\<close> (object 1), the override \<open>onInitialize\<close> of \<open>main\<close> and its \<open>onActivate\<close>
  are both called when \<open>currentScene\<close> is already object 1 and \<open>currentSceneName\<close> is
  already \<open>main\<close>: the pointers are set before \<open>_initialize\<close> and \<open>_activate\<close> of the
  destination run, not after they have resolved.
\<close>

theorem swapScene_pointers_counterexample:
  "Scene_isInitialized started_director (currentScene started_director) \<and>
   currentScene started_director = 0 \<and>
   fst (swapScene no_throw ''main'' None started_director) = None \<and>
   new_events started_director (snd (swapScene no_throw ''main'' None started_director)) ! 5 =
     (HookCall OnInitialize 1 None, 1, ''main'') \<and>
   new_events started_director (snd (swapScene no_throw ''main'' None started_director)) ! 10 =
     (HookCall OnActivate 1 (Some \<lparr>previousScene = 0, nextScene = 1, data = None\<rparr>), 1, ''main'')"
proof -
  have dest: "getSceneInstance ''main'' started_director =
      (Some 1, snd (getSceneInstance ''main'' started_director))"
    using started_director_main(1) by (simp add: prod_eq_iff)
  have scene: "sceneClass (heap (snd (getSceneInstance ''main'' started_director)) 1) \<noteq> Object"
    using started_director_main(2) by simp
  have hooks: "\<forall>h this d'. no_throw h this d' = None"
    by (simp add: no_throw_def)
  have "Scene_isInitialized (snd (getSceneInstance ''main'' started_director)) 0"
    using getSceneInstance_frame(6) [OF dest, of 0] started_director_facts(4,5)
    by (simp add: Scene_isInitialized_def)
  with swapScene_trace [OF started_director_facts(1) dest scene hooks, where dat = None]
    started_director_main(3) started_director_facts(5)
  show ?thesis
    by (simp add: started_director_facts(2,3) at_scene_def new_events_def)
qed

subsection \<open>Navigating to a name that is not registered\<close>

text \<open>For a name that is not a key of \<open>scenes\<close> and is not \<open>constructor\<close>, \<open>goToScene\<close>
  logs a warning and does nothing else: it does not throw, no hook is called, and the
  pointers and every other part of the state stay as they are.\<close>

lemma getSceneDefinition_unregistered:
  "map_of (scenes d) nm = None \<Longrightarrow> nm \<noteq> ''constructor'' \<Longrightarrow> getSceneDefinition d nm = None"
  by (simp add: getSceneDefinition_def get_prop_def)

lemma goToScene_unregistered:
  assumes "map_of (scenes d) nm = None" and "nm \<noteq> ''constructor''"
  shows "goToScene H nm opts d = (None, emit (Log Warn ''Scene does not exist! Check the name'') d)"
    and "Engine_goToScene H nm opts d =
         (None, emit (Log Warn ''Scene does not exist! Check the name'') d)"
  using assms
  by (simp_all add: Engine_goToScene_def goToScene_def getSceneInstance_def
      getSceneDefinition_unregistered)

text \<open>
  Claim C6.  The name \<open>constructor\<close> is not registered in \<open>main_director\<close>, whose current
  scene is \<open>main\<close> (object 1).  The claim asks that \<open>goToScene\<close> with this name logs, does
  not throw, runs no lifecycle method and leaves the pointers unchanged.  But
  \<open>this.scenes["constructor"]\<close> is the inherited function \<open>Object\<close>, which
  \<open>isSceneConstructor\<close> accepts, so \<open>getSceneInstance\<close> returns \<open>new Object()\<close> and the
  navigation goes ahead: \<open>navigationstart\<close> is emitted, \<open>main\<close> is deactivated, the pointers
  are set to the new object (object 2) and the name \<open>constructor\<close>, and the call of its
  missing method \<open>_initialize\<close> throws a TypeError.  No warning is logged.
\<close>

theorem goToScene_constructor:
  "map_of (scenes main_director) ''constructor'' = None \<and>
   currentScene main_director = 1 \<and> currentSceneName main_director = ''main'' \<and>
   fst (Engine_goToScene no_throw ''constructor'' None main_director) =
     Some (TypeError ''this.currentScene._initialize is not a function'') \<and>
   currentScene (snd (Engine_goToScene no_throw ''constructor'' None main_director)) = 2 \<and>
   currentSceneName (snd (Engine_goToScene no_throw ''constructor'' None main_director)) =
     ''constructor'' \<and>
   new_events main_director (snd (Engine_goToScene no_throw ''constructor'' None main_director)) =
     [(DirectorEmit ''navigationstart'' ''main'' ''constructor'', 1, ''main''),
      (Log Debug ''Going to scene:'', 1, ''main''),
      (Log Debug ''Scene.onDeactivate'', 1, ''main''),
      (HookCall OnDeactivate 1 (Some \<lparr>previousScene = 1, nextScene = 2, data = None\<rparr>), 1, ''main''),
      (SceneEmit ''deactivate'' 1, 1, ''main'')]"
  using main_director_facts
  by (simp add: Engine_goToScene_def goToScene_def swapScene_def getSceneInstance_def
      getSceneDefinition_def get_prop_def alloc_def new_Scene_def emitEvent_def call_hook_def
      Scene_initialize_def Scene_deactivate_def Scene_isInitialized_def no_throw_def
      new_events_def emit_def Let_def)

subsection \<open>Removing scenes\<close>

text \<open>The loop of \<open>remove\<close> deletes nothing under the current scene's name and does not
  touch the pointers.\<close>

lemma remove_loop_keeps_current:
  "remove_loop r keys d = (res, d') \<Longrightarrow>
   currentSceneName d' = currentSceneName d \<and> currentScene d' = currentScene d \<and>
   map_of (scenes d') (currentSceneName d) = map_of (scenes d) (currentSceneName d) \<and>
   map_of (sceneToInstance d') (currentSceneName d) =
     map_of (sceneToInstance d) (currentSceneName d)"
proof (induction keys arbitrary: d)
  case Nil
  then show ?case by simp
next
  case (Cons key keys)
  show ?case
  proof (cases "map_of (scenes d) key")
    case None
    with Cons show ?thesis by simp
  next
    case (Some e)
    show ?thesis
    proof (cases "entry_ref e = r")
      case False
      with Some Cons show ?thesis by simp
    next
      case True
      show ?thesis
      proof (cases "key = currentSceneName d")
        case True
        with \<open>entry_ref e = r\<close> Some Cons.prems show ?thesis by simp
      next
        case False
        let ?d = "d\<lparr>sceneToInstance := AList.delete key (sceneToInstance d),
                    scenes := AList.delete key (scenes d)\<rparr>"
        from False True Some Cons.prems have "remove_loop r keys ?d = (res, d')" by simp
        from Cons.IH [OF this] False show ?thesis
          by (simp add: delete_conv)
      qed
    qed
  qed
qed

text \<open>When the loop is looking for what is registered under the current scene's name, it
  throws: at that key at the latest.\<close>

lemma remove_loop_throws:
  "map_of (scenes d) (currentSceneName d) = Some e \<Longrightarrow> entry_ref e = r \<Longrightarrow>
   currentSceneName d \<in> set keys \<Longrightarrow>
   fst (remove_loop r keys d) = Some (Error ''Cannot remove a currently active scene'')"
proof (induction keys arbitrary: d)
  case Nil
  then show ?case by simp
next
  case (Cons key keys)
  show ?case
  proof (cases "key = currentSceneName d")
    case True
    with Cons.prems show ?thesis by simp
  next
    case False
    let ?d = "d\<lparr>sceneToInstance := AList.delete key (sceneToInstance d),
                scenes := AList.delete key (scenes d)\<rparr>"
    have "fst (remove_loop r keys ?d) = Some (Error ''Cannot remove a currently active scene'')"
      using Cons.prems False by (intro Cons.IH) (auto simp: delete_conv)
    moreover
    have "fst (remove_loop r keys d) = Some (Error ''Cannot remove a currently active scene'')"
      using Cons.prems False by (intro Cons.IH) auto
    ultimately show ?thesis
      using False by (simp split: option.splits)
  qed
qed

text \<open>
  Claim C8, as the code has it.  \<open>remove\<close> throws, at once, when it is called with the
  name of the current scene, and when it is called with the instance or the constructor
  that is registered under that name.  Whatever it is called with, and whether it throws
  or not, it leaves the pointers, the registry entry under the current scene's name and
  the instance cached under that name as they are.
\<close>

theorem remove_current_scene:
  "fst (remove (ByName (currentSceneName d)) d) =
     Some (Error ''Cannot remove a currently active scene'') \<and>
   (\<forall>e. map_of (scenes d) (currentSceneName d) = Some e \<longrightarrow>
        fst (remove (ByRef (entry_ref e)) d) =
          Some (Error ''Cannot remove a currently active scene'')) \<and>
   (\<forall>arg. currentSceneName (snd (remove arg d)) = currentSceneName d \<and>
          currentScene (snd (remove arg d)) = currentScene d \<and>
          map_of (scenes (snd (remove arg d))) (currentSceneName d) =
            map_of (scenes d) (currentSceneName d) \<and>
          map_of (sceneToInstance (snd (remove arg d))) (currentSceneName d) =
            map_of (sceneToInstance d) (currentSceneName d))"
proof (intro conjI allI impI)
  show "fst (remove (ByName (currentSceneName d)) d) =
      Some (Error ''Cannot remove a currently active scene'')"
    by (simp add: remove_def)
next
  fix e assume e: "map_of (scenes d) (currentSceneName d) = Some e"
  then have "currentSceneName d \<in> set (map fst (scenes d))"
    by (metis map_of_SomeD image_eqI fst_conv set_map)
  with e show "fst (remove (ByRef (entry_ref e)) d) =
      Some (Error ''Cannot remove a currently active scene'')"
    by (simp add: remove_def remove_loop_throws)
next
  fix arg
  obtain res d' where r: "remove arg d = (res, d')"
    by (cases "remove arg d")
  have k: "currentSceneName d' = currentSceneName d \<and> currentScene d' = currentScene d \<and>
      map_of (scenes d') (currentSceneName d) = map_of (scenes d) (currentSceneName d) \<and>
      map_of (sceneToInstance d') (currentSceneName d) =
        map_of (sceneToInstance d) (currentSceneName d)"
  proof (cases arg)
    case (ByName nm)
    with r show ?thesis
      by (auto simp: remove_def delete_conv split: if_splits)
  next
    case (ByRef sr)
    with r show ?thesis
      by (simp add: remove_def remove_loop_keeps_current)
  qed
  show "currentSceneName (snd (remove arg d)) = currentSceneName d"
    using k r by simp
  show "currentScene (snd (remove arg d)) = currentScene d"
    using k r by simp
  show "map_of (scenes (snd (remove arg d))) (currentSceneName d) =
      map_of (scenes d) (currentSceneName d)"
    using k r by simp
  show "map_of (sceneToInstance (snd (remove arg d))) (currentSceneName d) =
      map_of (sceneToInstance d) (currentSceneName d)"
    using k r by simp
qed

theorem remove_current_scene_witness:
  "map_of (scenes main_director) (currentSceneName main_director) =
     Some (Plain (Ctor (SceneClass 1))) \<and>
   fst (remove (ByName ''main'') main_director) =
     Some (Error ''Cannot remove a currently active scene'') \<and>
   fst (remove (ByRef (Ctor (SceneClass 1))) main_director) =
     Some (Error ''Cannot remove a currently active scene'') \<and>
   map_of (scenes (snd (remove (ByRef (Ctor (SceneClass 1))) main_director))) ''main'' =
     Some (Plain (Ctor (SceneClass 1))) \<and>
   map_of (sceneToInstance (snd (remove (ByName ''root'') main_director))) ''main'' = Some 1"
proof -
  have e: "map_of (scenes main_director) (currentSceneName main_director) =
      Some (Plain (Ctor (SceneClass 1)))"
    by (simp add: main_director_facts)
  from remove_current_scene [of main_director] e
  have "fst (remove (ByName (currentSceneName main_director)) main_director) =
      Some (Error ''Cannot remove a currently active scene'')"
    and "fst (remove (ByRef (entry_ref (Plain (Ctor (SceneClass 1))))) main_director) =
      Some (Error ''Cannot remove a currently active scene'')"
    and "map_of (scenes (snd (remove (ByRef (Ctor (SceneClass 1))) main_director)))
        (currentSceneName main_director) =
      map_of (scenes main_director) (currentSceneName main_director)"
    and "map_of (sceneToInstance (snd (remove (ByName ''root'') main_director)))
        (currentSceneName main_director) =
      map_of (sceneToInstance main_director) (currentSceneName main_director)"
    by blast+
  with e show ?thesis
    by (simp add: main_director_facts)
qed

text \<open>
  Claim C8 as stated fails for a scene registered by constructor.  In \<open>main_director\<close> the
  current scene is object 1, the instance that \<open>getSceneInstance\<close> made of the constructor
  registered as \<open>main\<close>.  \<open>remove\<close> called with that instance compares it with what is
  registered, constructors, finds nothing, and returns without throwing; nothing is removed.
\<close>

theorem remove_instance_counterexample:
  "currentScene main_director = 1 \<and>
   map_of (sceneToInstance main_director) (currentSceneName main_director) = Some 1 \<and>
   remove (ByRef (Inst 1)) main_director = (None, main_director)"
  by (simp add: remove_def main_director_facts)

subsection \<open>Deferred navigation\<close>

lemma adds_no_data_same: "trace d' = trace d \<Longrightarrow> adds_no_data d d'"
  by (simp add: adds_no_data_def)

lemma adds_no_data_trans: "adds_no_data d d1 \<Longrightarrow> adds_no_data d1 d2 \<Longrightarrow> adds_no_data d d2"
  by (auto simp: adds_no_data_def)

lemma adds_no_data_emit: "no_data ev \<Longrightarrow> adds_no_data d d1 \<Longrightarrow> adds_no_data d (emit ev d1)"
  by (auto simp: adds_no_data_def)

lemma Scene_initialize_no_data: "adds_no_data d (snd (Scene_initialize H this eng d))"
  by (simp add: adds_no_data_def Scene_initialize_def call_hook_def Let_def split: option.splits)

lemma Scene_activate_no_data:
  "data c = None \<Longrightarrow> adds_no_data d (snd (Scene_activate H this c d))"
  by (simp add: adds_no_data_def Scene_activate_def call_hook_def split: option.splits)

lemma Scene_deactivate_no_data:
  "data c = None \<Longrightarrow> adds_no_data d (snd (Scene_deactivate H this c d))"
  by (simp add: adds_no_data_def Scene_deactivate_def call_hook_def)

text \<open>A \<open>swapScene\<close> without the data argument calls no hook with activation data, however
  it ends.\<close>

lemma swapScene_no_data: "adds_no_data d (snd (swapScene H dest None d))"
proof (cases "director_initialized d")
  case False
  then show ?thesis by (simp add: swapScene_def adds_no_data_same)
next
  case True
  obtain m d1 where g: "getSceneInstance dest d = (m, d1)"
    by (cases "getSceneInstance dest d")
  then have t1: "adds_no_data d d1"
    using getSceneInstance_frame(1) [OF g] by (simp add: adds_no_data_same)
  show ?thesis
  proof (cases m)
    case None
    with True g t1 show ?thesis by (simp add: swapScene_def adds_no_data_emit)
  next
    case (Some nxt)
    let ?d2 = "emit (Log Debug ''Going to scene:'') d1"
    let ?c = "\<lparr>previousScene = currentScene d1, nextScene = nxt, data = None\<rparr>"
    have t2: "adds_no_data d ?d2" using t1 by (simp add: adds_no_data_emit)
    let ?deact = "if Scene_isInitialized ?d2 (currentScene ?d2) then
                    (case Scene_deactivate H (currentScene ?d2) ?c ?d2 of
                       (Some e, d3) \<Rightarrow> (Some e, d3)
                     | (None, d3) \<Rightarrow> (None, emit (SceneEmit ''deactivate'' (currentScene d3)) d3))
                  else (None, ?d2)"
    obtain r3 d3 where d3: "?deact = (r3, d3)" by (cases ?deact)
    have t3: "adds_no_data d d3"
    proof (cases "Scene_isInitialized ?d2 (currentScene ?d2)")
      case False
      with d3 t2 show ?thesis by simp
    next
      case True
      obtain r d' where sd: "Scene_deactivate H (currentScene ?d2) ?c ?d2 = (r, d')"
        by (cases "Scene_deactivate H (currentScene ?d2) ?c ?d2")
      then have "adds_no_data ?d2 d'"
        using Scene_deactivate_no_data [of ?c ?d2 H "currentScene ?d2"] by simp
      with t2 have "adds_no_data d d'" by (rule adds_no_data_trans)
      with True d3 sd show ?thesis by (cases r) (auto simp: adds_no_data_emit)
    qed
    show ?thesis
    proof (cases r3)
      case (Some e)
      with True g \<open>m = Some nxt\<close> d3 t3 show ?thesis by (simp add: swapScene_def Let_def)
    next
      case None
      let ?d4 = "d3\<lparr>currentScene := nxt, currentSceneName := dest\<rparr>"
      have t4: "adds_no_data d ?d4" using t3 by (simp add: adds_no_data_def)
      obtain r5 d5 where i: "Scene_initialize H (currentScene ?d4) (engine_ref ?d4) ?d4 = (r5, d5)"
        by (cases "Scene_initialize H (currentScene ?d4) (engine_ref ?d4) ?d4")
      then have "adds_no_data ?d4 d5"
        using Scene_initialize_no_data [of ?d4 H "currentScene ?d4" "engine_ref ?d4"] by simp
      with t4 have t5: "adds_no_data d d5" by (rule adds_no_data_trans)
      obtain r6 d6 where a: "Scene_activate H (currentScene d5) ?c d5 = (r6, d6)"
        by (cases "Scene_activate H (currentScene d5) ?c d5")
      then have "adds_no_data d5 d6"
        using Scene_activate_no_data [of ?c d5 H "currentScene d5"] by simp
      with t5 have t6: "adds_no_data d d6" by (rule adds_no_data_trans)
      from True g \<open>m = Some nxt\<close> d3 None i a t5 t6 show ?thesis
        by (cases r5; cases r6) (simp_all add: swapScene_def Let_def adds_no_data_emit)
    qed
  qed
qed

text \<open>
  Claim C10, as the code has it.  Let the Director not be initialized.  Then \<open>swapScene\<close>
  with a destination and activation data returns at once: nothing but \<open>_deferredGoto\<close>
  changes, so no lifecycle method runs and the data is stored nowhere.  \<open>onInitialize\<close>,
  called later, is a \<open>swapScene\<close> without the data argument: to the stored name when that
  name is not empty, and to \<open>root\<close> when it is the empty string, which the test
  \<open>if (this._deferredGoto)\<close> takes for no request.  Every hook it calls is called without
  activation data, and when the destination has a name that is not empty and resolves to a
  scene \<open>Y\<close>, and no hook throws, \<open>onActivate\<close> of \<open>Y\<close> is called with a context whose
  \<open>data\<close> is undefined.
\<close>

theorem deferred_navigation_drops_data:
  assumes "\<not> director_initialized d"
  shows "swapScene H dest dat d = (None, d\<lparr>deferredGoto := Some dest\<rparr>) \<and>
     Director_onInitialize H (d\<lparr>deferredGoto := Some dest\<rparr>) =
       (if dest \<noteq> []
        then swapScene H dest None
               (d\<lparr>deferredGoto := Some dest, director_initialized := True, deferredGoto := None\<rparr>)
        else swapScene H ''root'' None (d\<lparr>deferredGoto := Some dest, director_initialized := True\<rparr>)) \<and>
     adds_no_data d (snd (Director_onInitialize H (d\<lparr>deferredGoto := Some dest\<rparr>))) \<and>
     (dest \<noteq> [] \<and>
      getSceneInstance dest
        (d\<lparr>deferredGoto := Some dest, director_initialized := True, deferredGoto := None\<rparr>) =
        (Some Y, d1) \<and>
      sceneClass (heap d1 Y) \<noteq> Object \<and> (\<forall>h this d'. H h this d' = None) \<longrightarrow>
      (HookCall OnActivate Y (Some \<lparr>previousScene = currentScene d, nextScene = Y, data = None\<rparr>),
       Y, dest) \<in> set (trace (snd (Director_onInitialize H (d\<lparr>deferredGoto := Some dest\<rparr>)))))"
proof -
  let ?d0 = "d\<lparr>deferredGoto := Some dest, director_initialized := True, deferredGoto := None\<rparr>"
  have 1: "swapScene H dest dat d = (None, d\<lparr>deferredGoto := Some dest\<rparr>)"
    using assms by (simp add: swapScene_def)
  have 2: "Director_onInitialize H (d\<lparr>deferredGoto := Some dest\<rparr>) =
       (if dest \<noteq> [] then swapScene H dest None ?d0
        else swapScene H ''root'' None (d\<lparr>deferredGoto := Some dest, director_initialized := True\<rparr>))"
    using assms by (simp add: Director_onInitialize_def)
  have 3: "adds_no_data d (snd (swapScene H nm None d'))" if "trace d' = trace d" for d' nm
    using swapScene_no_data [of d' H nm] that by (simp add: adds_no_data_def)
  have 4: "adds_no_data d (snd (Director_onInitialize H (d\<lparr>deferredGoto := Some dest\<rparr>)))"
    unfolding 2 by (auto intro!: 3)
  have 5: "(HookCall OnActivate Y (Some \<lparr>previousScene = currentScene d, nextScene = Y, data = None\<rparr>),
       Y, dest) \<in> set (trace (snd (Director_onInitialize H (d\<lparr>deferredGoto := Some dest\<rparr>))))"
    if ne: "dest \<noteq> []" and g: "getSceneInstance dest ?d0 = (Some Y, d1)"
      and sc: "sceneClass (heap d1 Y) \<noteq> Object" and hooks: "\<forall>h this d'. H h this d' = None"
  proof -
    have init: "director_initialized ?d0" by simp
    from swapScene_trace(5) [OF init g sc hooks, where dat = None] ne
    show ?thesis
      unfolding 2 by (simp add: at_scene_def)
  qed
  from 1 2 4 5 show ?thesis by blast
qed

theorem deferred_navigation_drops_data_witness:
  "\<not> director_initialized room_director \<and>
   swapScene no_throw ''main'' (Some ''room-1'') room_director =
     (None, room_director\<lparr>deferredGoto := Some ''main''\<rparr>) \<and>
   fst (getSceneInstance ''main''
          (room_director\<lparr>deferredGoto := Some ''main'', director_initialized := True,
                          deferredGoto := None\<rparr>)) = Some 1 \<and>
   (HookCall OnActivate 1 (Some \<lparr>previousScene = 0, nextScene = 1, data = None\<rparr>), 1, ''main'')
     \<in> set (trace (snd (Director_onInitialize no_throw (room_director\<lparr>deferredGoto := Some ''main''\<rparr>))))"
proof -
  let ?d0 = "room_director\<lparr>deferredGoto := Some ''main'', director_initialized := True,
                           deferredGoto := None\<rparr>"
  have ni: "\<not> director_initialized room_director"
    by (simp add: room_director_facts)
  have g1: "fst (getSceneInstance ''main'' ?d0) = Some 1"
    and sc: "sceneClass (heap (snd (getSceneInstance ''main'' ?d0)) 1) \<noteq> Object"
    by (simp_all add: room_director_def director_defs)
  from g1 have g: "getSceneInstance ''main'' ?d0 = (Some 1, snd (getSceneInstance ''main'' ?d0))"
    by (simp add: prod_eq_iff)
  have hooks: "\<forall>h this d'. no_throw h this d' = None"
    by (simp add: no_throw_def)
  have ne: "''main'' \<noteq> []" by simp
  note inst = deferred_navigation_drops_data [OF ni, of no_throw "''main''" "Some ''room-1''" 1
      "snd (getSceneInstance ''main'' ?d0)"]
  from inst have sw: "swapScene no_throw ''main'' (Some ''room-1'') room_director =
      (None, room_director\<lparr>deferredGoto := Some ''main''\<rparr>)"
    by (rule conjunct1)
  from inst ne g sc hooks
  have "(HookCall OnActivate 1
          (Some \<lparr>previousScene = currentScene room_director, nextScene = 1, data = None\<rparr>),
         1, ''main'')
     \<in> set (trace (snd (Director_onInitialize no_throw
                           (room_director\<lparr>deferredGoto := Some ''main''\<rparr>))))"
    by blast
  then have mem: "(HookCall OnActivate 1
          (Some \<lparr>previousScene = 0, nextScene = 1, data = None\<rparr>), 1, ''main'')
     \<in> set (trace (snd (Director_onInitialize no_throw
                           (room_director\<lparr>deferredGoto := Some ''main''\<rparr>))))"
    by (simp only: room_director_facts(2))
  from ni sw g1 mem show ?thesis
    by (intro conjI)
qed

text \<open>
  Claim C10 as stated fails for a scene registered under the empty name.  In
  \<open>unnamed_director\<close>, which is not initialized, the empty name is registered by constructor,
  and \<open>swapScene\<close> to it with activation data defers the navigation.  \<open>onInitialize\<close> then
  navigates to \<open>root\<close>: the root scene stays current and is initialized and activated, the
  destination is never instantiated, no hook of it is called, and \<open>_deferredGoto\<close> still
  holds the empty name.
\<close>

theorem deferred_empty_name_counterexample:
  "\<not> director_initialized unnamed_director \<and>
   getSceneDefinition unnamed_director [] = Some (Ctor (SceneClass 1)) \<and>
   swapScene no_throw [] (Some ''room-1'') unnamed_director =
     (None, unnamed_director\<lparr>deferredGoto := Some []\<rparr>) \<and>
   fst (Director_onInitialize no_throw (unnamed_director\<lparr>deferredGoto := Some []\<rparr>)) = None \<and>
   currentSceneName (snd (Director_onInitialize no_throw (unnamed_director\<lparr>deferredGoto := Some []\<rparr>)))
     = ''root'' \<and>
   currentScene (snd (Director_onInitialize no_throw (unnamed_director\<lparr>deferredGoto := Some []\<rparr>)))
     = 0 \<and>
   deferredGoto (snd (Director_onInitialize no_throw (unnamed_director\<lparr>deferredGoto := Some []\<rparr>)))
     = Some [] \<and>
   sceneToInstance (snd (Director_onInitialize no_throw (unnamed_director\<lparr>deferredGoto := Some []\<rparr>)))
     = [(''root'', 0)] \<and>
   trace (snd (Director_onInitialize no_throw (unnamed_director\<lparr>deferredGoto := Some []\<rparr>)))
     = [(Log Debug ''Going to scene:'', 0, ''root''),
        (SystemsInitialize 0, 0, ''root''),
        (HookCall OnInitialize 0 None, 0, ''root''),
        (InitializeChildren 0, 0, ''root''),
        (Log Debug ''Scene.onInitialize'', 0, ''root''),
        (SceneEmit ''initialize'' 0, 0, ''root''),
        (Log Debug ''Scene.onActivate'', 0, ''root''),
        (HookCall OnActivate 0 (Some \<lparr>previousScene = 0, nextScene = 0, data = None\<rparr>),
         0, ''root''),
        (SceneEmit ''activate'' 0, 0, ''root'')]"
  by (simp add: unnamed_director_def director_defs)

section \<open>The main loop\<close>

subsection \<open>Rounding to a double\<close>

text \<open>\<open>exponent\<close> computes the exponent: the power of two it returns is at most \<open>a\<close>, the
  next one is above \<open>a\<close>, and no other integer has the two properties.\<close>

lemma pow2_powi: "pow2 k = 2 powi k"
  by (simp add: pow2_def power_int_def field_simps)

lemma bitlen_powi:
  assumes "0 < n"
  shows "(2 :: rat) powi (bitlen n - 1) \<le> of_int n" and "(of_int n :: rat) < 2 powi bitlen n"
proof -
  from assms have b: "1 \<le> bitlen n" by (auto simp: bitlen_alt_def)
  from bitlen_bounds [OF assms]
  have lo: "(2 :: int) ^ nat (bitlen n - 1) \<le> n" and hi: "n < 2 ^ nat (bitlen n)" by simp_all
  from lo have "(of_int (2 ^ nat (bitlen n - 1)) :: rat) \<le> of_int n" by (simp only: of_int_le_iff)
  then show "(2 :: rat) powi (bitlen n - 1) \<le> of_int n"
    using b by (simp add: power_int_def)
  from hi have "(of_int n :: rat) < of_int (2 ^ nat (bitlen n))" by (simp only: of_int_less_iff)
  then show "(of_int n :: rat) < 2 powi bitlen n"
    using b by (simp add: power_int_def)
qed

lemma exponent_bounds:
  assumes "0 < a"
  shows "pow2 (exponent a) \<le> a" and "a < pow2 (exponent a + 1)"
proof -
  obtain p q where pq: "quotient_of a = (p, q)" by (cases "quotient_of a")
  then have q: "0 < q" by (rule quotient_of_denom_pos)
  from pq have a: "a = of_int p / of_int q" by (rule quotient_of_div)
  with assms q have p: "0 < p" by (simp add: zero_less_divide_iff)
  let ?e0 = "bitlen p - bitlen q"
  note bp = bitlen_powi [OF p] and bq = bitlen_powi [OF q]
  have qpos: "(0 :: rat) < of_int q" and ppos: "(0 :: rat) < of_int p" using p q by simp_all
  have two: "(0 :: rat) < 2 powi k" for k by simp
  have "(2 :: rat) powi (bitlen p - 1) / 2 powi bitlen q < of_int p / of_int q"
    using bp(1) bq(2) qpos two [of "bitlen p - 1"]
    by (intro frac_less2) simp_all
  moreover have "(2 :: rat) powi (?e0 - 1) = 2 powi (bitlen p - 1) / 2 powi bitlen q"
  proof -
    have "?e0 - 1 = bitlen p - 1 - bitlen q" by simp
    then have "(2 :: rat) powi (?e0 - 1) = 2 powi (bitlen p - 1 - bitlen q)" by (rule arg_cong)
    also have "\<dots> = 2 powi (bitlen p - 1) / 2 powi bitlen q" by (rule power_int_diff) simp
    finally show ?thesis .
  qed
  ultimately have lo: "(2 :: rat) powi (?e0 - 1) < a"
    unfolding a by simp
  have "(of_int p :: rat) / of_int q < 2 powi bitlen p / 2 powi (bitlen q - 1)"
    using bp(2) bq(1) ppos two [of "bitlen q - 1"]
    by (intro frac_less) simp_all
  moreover have "(2 :: rat) powi (?e0 + 1) = 2 powi bitlen p / 2 powi (bitlen q - 1)"
  proof -
    have "?e0 + 1 = bitlen p - (bitlen q - 1)" by simp
    then have "(2 :: rat) powi (?e0 + 1) = 2 powi (bitlen p - (bitlen q - 1))" by (rule arg_cong)
    also have "\<dots> = 2 powi bitlen p / 2 powi (bitlen q - 1)" by (rule power_int_diff) simp
    finally show ?thesis .
  qed
  ultimately have hi: "a < (2 :: rat) powi (?e0 + 1)"
    unfolding a by simp
  have e: "exponent a = (if 2 powi ?e0 \<le> a then ?e0 else ?e0 - 1)"
    by (simp add: exponent_def pq Let_def pow2_powi)
  show "pow2 (exponent a) \<le> a"
    using lo unfolding e pow2_powi by (simp add: less_imp_le)
  show "a < pow2 (exponent a + 1)"
    using hi unfolding e pow2_powi by (simp add: not_le)
qed

lemma exponent_unique:
  assumes "pow2 e \<le> a" and "a < pow2 (e + 1)"
  shows "exponent a = e"
proof -
  have "0 < pow2 e" by (simp add: pow2_powi)
  with assms(1) have a: "0 < a" by simp
  note b = exponent_bounds [OF a]
  have "(2 :: rat) powi e < 2 powi (exponent a + 1)"
    using assms(1) b(2) unfolding pow2_powi by simp
  then have 1: "e < exponent a + 1"
    using power_int_increasing [of "exponent a + 1" e "2 :: rat"] by (cases "e < exponent a + 1") simp_all
  have "(2 :: rat) powi exponent a < 2 powi (e + 1)"
    using assms(2) b(1) unfolding pow2_powi by simp
  then have 2: "exponent a < e + 1"
    using power_int_increasing [of "e + 1" "exponent a" "2 :: rat"] by (cases "exponent a < e + 1") simp_all
  from 1 2 show ?thesis by simp
qed

text \<open>Some values: one tenth, the timestep \<open>1000 / 60\<close> of server.ts, ties above \<open>2 ^ 53\<close>,
  where the doubles are the even numbers, and a negative number.\<close>

lemma round64_examples:
  "round64 (1 / 10) = Fin (3602879701896397 / 2 ^ 55)"
  "round64 (1000 / 60) = Fin (4691249611844267 / 2 ^ 48)"
  "round64 (2 ^ 53 + 1) = Fin (2 ^ 53)"
  "round64 (2 ^ 53 + 3) = Fin (2 ^ 53 + 4)"
  "round64 (- (1 / 3)) = Fin (- (6004799503160661 / 2 ^ 54))"
  by code_simp+

text \<open>The ends of the range: the largest double is \<open>2 ^ 1024 - 2 ^ 971\<close>, and the value
  halfway to \<open>2 ^ 1024\<close> is rounded to infinity; the smallest positive double is
  \<open>2 ^ - 1074\<close>, half of it is rounded to zero, and one and a half times it to twice it.\<close>

lemma round64_largest:
  "round64 (2 ^ 1024 - 2 ^ 971) = Fin (2 ^ 1024 - 2 ^ 971)"
  "round64 (2 ^ 1024 - 2 ^ 970) = PosInf"
proof -
  have e: "exponent (2 ^ 1024 - 2 ^ 971) = 1023" "exponent (2 ^ 1024 - 2 ^ 970) = 1023"
    "exponent (2 ^ 1024) = 1024"
    by (rule exponent_unique; simp add: pow2_def)+
  have r: "round_half_even (2 ^ 53 - 1) = 2 ^ 53 - 1" "round_half_even (2 ^ 53 - 1 / 2) = 2 ^ 53"
    by code_simp+
  have q: "((2 :: rat) ^ 1024 - 2 ^ 971) / 2 ^ 971 = 2 ^ 53 - 1"
    "((2 :: rat) ^ 1024 - 2 ^ 970) / 2 ^ 971 = 2 ^ 53 - 1 / 2"
    by simp_all
  have y: "((2 :: rat) ^ 53 - 1) * 2 ^ 971 = 2 ^ 1024 - 2 ^ 971" "(2 :: rat) ^ 53 * 2 ^ 971 = 2 ^ 1024"
    by simp_all
  have u: "pow2 (max 1023 (- 1022) - 52) = 2 ^ 971" by (simp add: pow2_def)
  have a: "\<bar>(2 :: rat) ^ 1024 - 2 ^ 971\<bar> = 2 ^ 1024 - 2 ^ 971"
    "\<bar>(2 :: rat) ^ 1024 - 2 ^ 970\<bar> = 2 ^ 1024 - 2 ^ 970" by simp_all
  show "round64 (2 ^ 1024 - 2 ^ 971) = Fin (2 ^ 1024 - 2 ^ 971)"
    unfolding round64_def Let_def a e u q r
    apply (simp only: of_int_diff of_int_power of_int_numeral of_int_1 y e)
    apply simp
    done
  show "round64 (2 ^ 1024 - 2 ^ 970) = PosInf"
    unfolding round64_def Let_def a e u q r
    apply (simp only: of_int_diff of_int_power of_int_numeral of_int_1 y e)
    apply simp
    done
qed

lemma round64_smallest:
  "round64 (1 / 2 ^ 1075) = Fin 0"
  "round64 (3 / 2 ^ 1075) = Fin (1 / 2 ^ 1073)"
proof -
  have e: "exponent (1 / 2 ^ 1075) = - 1075" "exponent (3 / 2 ^ 1075) = - 1074"
    by (rule exponent_unique; simp add: pow2_def)+
  have u: "pow2 (max (- 1075) (- 1022) - 52) = 1 / 2 ^ 1074"
    "pow2 (max (- 1074) (- 1022) - 52) = 1 / 2 ^ 1074" by (simp_all add: pow2_def)
  have q: "(1 / 2 ^ 1075 :: rat) / (1 / 2 ^ 1074) = 1 / 2" "(3 / 2 ^ 1075 :: rat) / (1 / 2 ^ 1074) = 3 / 2"
    by simp_all
  have r: "round_half_even (1 / 2) = 0" "round_half_even (3 / 2) = 2"
    by code_simp+
  have e0: "exponent 0 < 1024" by code_simp
  have e1: "exponent (1 / 2 ^ 1073) = - 1073" by (rule exponent_unique; simp add: pow2_def)
  have y: "(2 :: rat) * (1 / 2 ^ 1074) = 1 / 2 ^ 1073" by simp
  have a: "\<bar>1 / 2 ^ 1075 :: rat\<bar> = 1 / 2 ^ 1075" "\<bar>3 / 2 ^ 1075 :: rat\<bar> = 3 / 2 ^ 1075" by simp_all
  show "round64 (1 / 2 ^ 1075) = Fin 0"
    unfolding round64_def Let_def a e u q r using e0 by simp
  show "round64 (3 / 2 ^ 1075) = Fin (1 / 2 ^ 1073)"
    unfolding round64_def Let_def a e u q r
    apply (simp only: of_int_numeral y e1)
    apply simp
    done
qed

subsection \<open>Runs without rounding\<close>

text \<open>With a positive timestep and a lag that is not negative, the loop ends when none of
  its subtractions rounds, after as many updates as whole timesteps fit into the lag.\<close>

lemma minus64_Fin: "minus64 (Fin a) (Fin b) = round64 (a - b)"
  by (simp add: minus64_def)





subsection \<open>Whole numbers\<close>

text \<open>A whole number up to \<open>2 ^ 53\<close> is a double, and sums and differences of such numbers
  are whole numbers.  So no operation rounds in a run whose timestep, lag and samples are
  whole numbers of milliseconds with a total of at most \<open>2 ^ 53\<close>.\<close>

lemma round_half_even_of_int: "round_half_even (of_int m) = m"
  by (simp add: round_half_even_def)

lemma exponent_of_int:
  assumes "0 < n"
  shows "exponent (of_int n) = bitlen n - 1" and "0 \<le> bitlen n - 1"
    and "(2 :: int) ^ nat (bitlen n - 1) \<le> n"
proof -
  from assms have b: "1 \<le> bitlen n" by (auto simp: bitlen_alt_def)
  then show nn: "0 \<le> bitlen n - 1" by simp
  from bitlen_bounds [OF assms] show le: "(2 :: int) ^ nat (bitlen n - 1) \<le> n" by simp
  then have "(of_int (2 ^ nat (bitlen n - 1)) :: rat) \<le> of_int n"
    by (simp only: of_int_le_iff)
  then have "pow2 (bitlen n - 1) \<le> of_int n"
    using nn by (simp add: pow2_def)
  moreover have "bitlen 1 = 1" by (simp add: bitlen_alt_def)
  ultimately show "exponent (of_int n) = bitlen n - 1"
    by (simp add: exponent_def quotient_of_int Let_def)
qed

lemma round64_of_int:
  assumes "0 \<le> n" and "n \<le> 2 ^ 53"
  shows "round64 (of_int n) = Fin (of_int n)"
proof (cases "n = 0")
  case True
  then show ?thesis by (simp add: round64_def)
next
  case False
  with assms have pos: "0 < n" by simp
  let ?e = "bitlen n - 1"
  note ex = exponent_of_int [OF pos]
  have "(2 :: int) ^ nat ?e \<le> 2 ^ 53" using ex(3) assms(2) by linarith
  then have "nat ?e \<le> 53" using power_le_imp_le_exp [of "2 :: int" "nat ?e" 53] by simp
  then have e53: "?e \<le> 53" by linarith
  have y: "of_int (round_half_even (of_int n / pow2 (?e - 52))) * pow2 (?e - 52) = (of_int n :: rat)"
  proof (cases "?e \<le> 52")
    case True
    then have u: "pow2 (?e - 52) = 1 / 2 ^ nat (52 - ?e)"
      by (auto simp: pow2_def)
    have q: "(of_int n :: rat) / (1 / 2 ^ nat (52 - ?e)) = of_int (n * 2 ^ nat (52 - ?e))"
      by simp
    have "of_int (round_half_even (of_int n / pow2 (?e - 52))) * pow2 (?e - 52) =
          (of_int (n * 2 ^ nat (52 - ?e)) :: rat) * (1 / 2 ^ nat (52 - ?e))"
      by (simp only: u q round_half_even_of_int)
    also have "\<dots> = of_int n" by simp
    finally show ?thesis .
  next
    case False
    with e53 have e: "?e = 53" by linarith
    with ex(3) assms(2) have n: "n = 2 ^ 53" by simp
    have u: "pow2 (?e - 52) = 2" unfolding e by (simp add: pow2_def)
    have q: "(of_int n :: rat) / 2 = of_int (2 ^ 52)"
      unfolding n by simp
    have "of_int (round_half_even (of_int n / pow2 (?e - 52))) * pow2 (?e - 52) =
          (of_int (2 ^ 52) :: rat) * 2"
      by (simp only: u q round_half_even_of_int)
    also have "\<dots> = of_int n" unfolding n by simp
    finally show ?thesis .
  qed
  have m: "max (exponent (of_int n)) (- 1022) - 52 = ?e - 52"
    using ex(1,2) by simp
  have a: "\<bar>of_int n :: rat\<bar> = of_int n" using pos by simp
  have nz: "(of_int n :: rat) \<noteq> 0" "(0 :: rat) < of_int n" using pos by simp_all
  show ?thesis
    unfolding round64_def Let_def a m y
    using nz ex(1) e53 by simp
qed

lemma round64_of_nat: "m \<le> 2 ^ 53 \<Longrightarrow> round64 (of_nat m) = Fin (of_nat m)"
proof -
  assume "m \<le> 2 ^ 53"
  then have "int m \<le> 2 ^ 53"
    by (metis of_nat_le_iff of_nat_numeral of_nat_power)
  from round64_of_int [of "int m", OF _ this] show ?thesis by simp
qed

lemma exact_run_whole_numbers:
  assumes "0 < F" and "l0 + sum_list ns \<le> 2 ^ 53"
  shows "exact_run (of_nat F) (of_nat l0) (map of_nat ns)"
  using assms(2)
proof (induction ns arbitrary: l0)
  case Nil
  show ?case by simp
next
  case (Cons n ns)
  let ?x = "l0 + n"
  have fl: "\<lfloor>(of_nat l0 + of_nat n :: rat) / of_nat F\<rfloor> = int (?x div F)"
    using floor_divide_of_nat_eq [of ?x F, where ?'a = rat] by simp
  then have k: "nat \<lfloor>(of_nat l0 + of_nat n :: rat) / of_nat F\<rfloor> = ?x div F" by simp
  have rest: "(of_nat l0 + of_nat n :: rat) - of_nat (?x div F) * of_nat F = of_nat (?x mod F)"
  proof -
    have "(of_nat (?x div F) * of_nat F + of_nat (?x mod F) :: rat) = of_nat ?x"
      by (simp only: of_nat_mult [symmetric] of_nat_add [symmetric] div_mult_mod_eq)
    then have "(of_nat l0 + of_nat n :: rat) = of_nat (?x div F) * of_nat F + of_nat (?x mod F)"
      by simp
    then show ?thesis by (simp only: add_diff_cancel_left')
  qed
  have 1: "round64 (of_nat n) = Fin (of_nat n)"
    using Cons.prems by (intro round64_of_nat) simp
  have 2: "round64 (of_nat l0 + of_nat n) = Fin (of_nat l0 + of_nat n)"
    using Cons.prems round64_of_nat [of ?x] by simp
  have 3: "round64 (of_nat l0 + of_nat n - of_nat j * of_nat F) =
           Fin (of_nat l0 + of_nat n - of_nat j * of_nat F)" if "j \<le> ?x div F" for j
  proof -
    from that have "j * F \<le> ?x div F * F" by simp
    also have "\<dots> \<le> ?x" by simp
    finally have le: "j * F \<le> ?x" .
    then have eq: "(of_nat l0 + of_nat n :: rat) - of_nat j * of_nat F = of_nat (?x - j * F)"
      by (simp add: of_nat_diff)
    have "?x - j * F \<le> 2 ^ 53" using Cons.prems by simp
    from round64_of_nat [OF this] show ?thesis unfolding eq .
  qed
  have 4: "exact_run (of_nat F) (of_nat (?x mod F)) (map of_nat ns)"
  proof (rule Cons.IH)
    from Cons.prems have p: "?x + sum_list ns \<le> 2 ^ 53" by simp
    have "?x mod F \<le> ?x" by simp
    with p show "?x mod F + sum_list ns \<le> 2 ^ 53" by linarith
  qed
  show ?case
    using 1 2 3 4 by (simp add: Let_def k rest list_all_iff del: upt_Suc)
qed

subsection \<open>A loop that does not end\<close>

text \<open>With the timestep 1 and the lag \<open>2 ^ 54\<close> the subtraction \<open>2 ^ 54 - 1\<close> rounds back to
  \<open>2 ^ 54\<close>: the lag never decreases and the loop does not return.\<close>

lemma round64_tie: "round64 (2 ^ 54 - 1) = Fin (2 ^ 54)"
  by code_simp

lemma catch_up_stuck:
  assumes "catch_up f e = Some y"
  shows "\<not> (f = Fin 1 \<and> lagMs e = Fin (2 ^ 54))"
proof (rule catch_up.raw_induct
    [where P = "\<lambda>f e y. \<not> (f = Fin 1 \<and> lagMs e = Fin (2 ^ 54))", OF _ assms])
  fix cu f e y
  assume IH: "\<And>f e y. cu f e = Some y \<Longrightarrow> \<not> (f = Fin 1 \<and> lagMs e = Fin (2 ^ 54))"
    and eq: "(if ge64 (lagMs e) f
              then cu f ((Engine_update f e)\<lparr>lagMs := minus64 (lagMs e) f\<rparr>)
              else Some e) = Some y"
  show "\<not> (f = Fin 1 \<and> lagMs e = Fin (2 ^ 54))"
  proof
    assume h: "f = Fin 1 \<and> lagMs e = Fin (2 ^ 54)"
    let ?e = "(Engine_update f e)\<lparr>lagMs := minus64 (lagMs e) f\<rparr>"
    from h have "lagMs ?e = Fin (2 ^ 54)" using round64_tie by (simp add: minus64_Fin)
    moreover from h eq have "cu f ?e = Some y" by simp
    ultimately show False using IH [of f ?e y] h by simp
  qed
qed

lemma catch_up_diverges: "lagMs e = Fin (2 ^ 54) \<Longrightarrow> catch_up (Fin 1) e = None"
  using catch_up_stuck [of "Fin 1" e] by (cases "catch_up (Fin 1) e") auto

subsection \<open>The count of updates\<close>





end
